theory Spec2Isabelle
  imports Main "HOL-Library.Word"
begin

section \<open>Data model\<close>

text \<open>
  The terminal browser of \<^verbatim>\<open>internal/tui\<close>: a root model (\<^verbatim>\<open>tui.go\<close>) that owns the current
  view, the back-navigation history and one sub-model per view (\<^verbatim>\<open>menu.go\<close>,
  \<^verbatim>\<open>proglist.go\<close>, \<^verbatim>\<open>progdetail.go\<close>, \<^verbatim>\<open>maplist.go\<close>, \<^verbatim>\<open>mapdetail.go\<close>, \<^verbatim>\<open>mapdump.go\<close>).
  Go's \<^verbatim>\<open>uint32\<close> is \<open>32 word\<close>, a byte is \<open>8 word\<close>, Go's \<^verbatim>\<open>int\<close> (cursors, sizes) is
  \<open>int\<close>: the only arithmetic on it is \<open>\<plusminus> 1\<close> below a slice length and \<open>height - 4\<close>,
  \<open>height - 6\<close>.
\<close>

type_synonym u32 = "32 word"
type_synonym byte = "8 word"

definition NL :: string where
  "NL = [CHR 0x0A]"

subsection \<open>ViewState (tui.go)\<close>

datatype ViewState =
  ViewMenu | ViewProgList | ViewProgDetail | ViewMapList | ViewMapDetail | ViewMapDump

subsection \<open>Service records and errors (services.go)\<close>

record ProgramInfo =
  p_ID :: u32
  p_Type :: string
  p_Name :: string
  p_Tag :: string
  p_GPL :: bool
  p_LoadedAt :: string
  p_UID :: u32
  p_BytesXlated :: u32
  p_BytesJIT :: u32
  p_MemLock :: u32
  p_MapIDs :: "u32 list"
  p_Pinned :: bool
  p_PinnedPaths :: "string list"

record MapInfo =
  mi_ID :: u32
  mi_Type :: string
  mi_Name :: string
  mi_KeySize :: u32
  mi_ValueSize :: u32
  mi_MaxEntries :: u32
  mi_Flags :: u32
  mi_MemLock :: u32
  mi_LoadedAt :: string
  mi_UID :: u32
  mi_Pinned :: bool
  mi_PinnedPaths :: "string list"

record MapEntry =
  Key :: "byte list"
  Value :: "byte list"

text \<open>
  A Go \<^verbatim>\<open>error\<close> value is either a plain error (\<^verbatim>\<open>errors.New\<close>) or a
  \<^verbatim>\<open>*PermissionError\<close> wrapping an optional inner error.
\<close>

datatype error = ErrorString string | PermissionError "error option"

fun Error :: "error \<Rightarrow> string" where
  "Error (ErrorString s) = s"
| "Error (PermissionError None) = ''insufficient permissions''"
| "Error (PermissionError (Some e)) = ''insufficient permissions: '' @ Error e"

text \<open>\<^verbatim>\<open>errors.As(err, &permErr)\<close> walks the \<^verbatim>\<open>Unwrap\<close> chain and stops at the first
  \<^verbatim>\<open>*PermissionError\<close>; a plain error has no \<^verbatim>\<open>Unwrap\<close>.\<close>

fun IsPermissionError :: "error option \<Rightarrow> bool" where
  "IsPermissionError None = False"
| "IsPermissionError (Some (ErrorString s)) = False"
| "IsPermissionError (Some (PermissionError e)) = True"

text \<open>The two service interfaces. A call either fails or returns its data; \<^verbatim>\<open>Get\<close> returns a
  pointer, which may be nil.\<close>

record ProgService =
  prog_List :: "error + ProgramInfo list"
  prog_Get :: "u32 \<Rightarrow> error + ProgramInfo option"

record MapsService =
  maps_List :: "error + MapInfo list"
  maps_Get :: "u32 \<Rightarrow> error + MapInfo option"
  maps_Dump :: "u32 \<Rightarrow> error + MapEntry list"

subsection \<open>Messages, commands and key bindings\<close>

text \<open>
  A \<^verbatim>\<open>tea.KeyMsg\<close> is identified by its \<^verbatim>\<open>String()\<close> (\<open>''enter''\<close>, \<open>''esc''\<close>, \<open>''q''\<close>, ...),
  which is all the program reads of it. A \<^verbatim>\<open>tea.Cmd\<close> is \<open>None\<close> for nil, \<open>Some Quit\<close> for
  \<^verbatim>\<open>tea.Quit\<close>, or some other command of a widget.
\<close>

datatype msg = KeyMsg string | WindowSizeMsg int int | OtherMsg nat

datatype cmd = Quit | WidgetCmd nat

text \<open>Modelled from the spec: \<^verbatim>\<open>keys.go\<close> (the type \<^verbatim>\<open>keyMap\<close> and \<^verbatim>\<open>defaultKeyMap\<close>) is not
  among the sources. The spec names the quit, help and back keys; the keys bound to them
  are those asserted by \<^verbatim>\<open>keys_test.go\<close> (\<^verbatim>\<open>TestDefaultKeyMapBindings\<close>). A binding is the
  list of its keys, and \<^verbatim>\<open>key.Matches\<close> compares the key's string with each of them.\<close>

record keyMap =
  k_Up :: "string list"
  k_Down :: "string list"
  k_Enter :: "string list"
  k_Back :: "string list"
  k_Quit :: "string list"
  k_Search :: "string list"
  k_Help :: "string list"

definition defaultKeyMap :: keyMap where
  "defaultKeyMap = \<lparr>
     k_Up = [''up'', ''k''],
     k_Down = [''down'', ''j''],
     k_Enter = [''enter''],
     k_Back = [''esc'', ''backspace''],
     k_Quit = [''q'', ''ctrl+c''],
     k_Search = [''/''],
     k_Help = [''?''] \<rparr>"

definition Matches :: "string \<Rightarrow> string list \<Rightarrow> bool" where
  "Matches k binding = (k \<in> set binding)"

subsection \<open>The widget library\<close>

text \<open>
  The list widget (\<^verbatim>\<open>bubbles/list\<close>), the scroll region (\<^verbatim>\<open>bubbles/viewport\<close>) and the styles
  (\<^verbatim>\<open>lipgloss\<close>) are third-party code. Their operations are parameters of the model: a
  record \<open>L\<close> of functions over an arbitrary list state \<open>'l\<close> and viewport state \<open>'v\<close>, one
  field per library call the program makes. \<open>Render L st s\<close> is \<^verbatim>\<open>st.Render(s)\<close> for the
  style \<open>st\<close> of \<^verbatim>\<open>styles.go\<close>; \<open>list_New\<close> takes the items, the size and the options the
  program sets on a new list.
\<close>

datatype FilterState = Unfiltered | Filtering | FilterApplied

datatype style =
  titleStyle | selectedStyle | normalStyle | helpStyle | errorStyle | dimStyle
  | labelStyle | valueStyle

record menuItem =
  title :: string
  description :: string
  target :: ViewState

text \<open>A \<^verbatim>\<open>list.Item\<close> is an interface value; its dynamic type is one of the three item types.\<close>

datatype Item = MenuItem menuItem | ProgItem ProgramInfo | MapItem MapInfo

record list_options =
  o_Title :: string
  o_ShowStatusBar :: bool
  o_FilteringEnabled :: bool
  o_ShowHelp :: bool

record ('l, 'v) lib =
  list_New :: "Item list \<Rightarrow> int \<Rightarrow> int \<Rightarrow> list_options \<Rightarrow> 'l"
  list_Items :: "'l \<Rightarrow> Item list"
  list_SelectedItem :: "'l \<Rightarrow> Item option"
  list_FilterState :: "'l \<Rightarrow> FilterState"
  list_SetItems :: "Item list \<Rightarrow> 'l \<Rightarrow> 'l"
  list_ResetFilter :: "'l \<Rightarrow> 'l"
  list_SetSize :: "int \<Rightarrow> int \<Rightarrow> 'l \<Rightarrow> 'l"
  list_Update :: "msg \<Rightarrow> 'l \<Rightarrow> 'l \<times> cmd option"
  list_View :: "'l \<Rightarrow> string"
  vp_Zero :: "'v"
  vp_New :: "int \<Rightarrow> int \<Rightarrow> 'v"
  vp_SetContent :: "string \<Rightarrow> 'v \<Rightarrow> 'v"
  vp_SetWidth :: "int \<Rightarrow> 'v \<Rightarrow> 'v"
  vp_SetHeight :: "int \<Rightarrow> 'v \<Rightarrow> 'v"
  vp_Update :: "msg \<Rightarrow> 'v \<Rightarrow> 'v \<times> cmd option"
  vp_View :: "'v \<Rightarrow> string"
  Render :: "style \<Rightarrow> string \<Rightarrow> string"

section \<open>Map dump view (mapdump.go)\<close>

record 'v mapDumpModel =
  du_mapID :: u32
  du_mapName :: string
  du_entries :: "MapEntry list"
  du_viewport :: 'v
  du_width :: int
  du_height :: int
  du_ready :: bool
  du_loading :: bool
  du_err :: "error option"

definition hexdigits :: string where
  "hexdigits = ''0123456789abcdef''"

text \<open>\<^verbatim>\<open>fmt.Sprintf("%02x", b)\<close>\<close>

definition sprintf_02x :: "byte \<Rightarrow> string" where
  "sprintf_02x b = [hexdigits ! (unat b div 16), hexdigits ! (unat b mod 16)]"

text \<open>\<^verbatim>\<open>strings.Join\<close>\<close>

fun Join :: "string list \<Rightarrow> string \<Rightarrow> string" where
  "Join [] sep = []"
| "Join [x] sep = x"
| "Join (x # y # ys) sep = x @ sep @ Join (y # ys) sep"

definition formatHex :: "byte list \<Rightarrow> string" where
  "formatHex data =
     (if length data = 0 then ''(empty)''
      else Join (map sprintf_02x data) '' '')"

text \<open>The loop of \<^verbatim>\<open>renderContent\<close> over \<^verbatim>\<open>m.entries\<close>: \<open>n\<close> is \<^verbatim>\<open>len(m.entries)\<close>, \<open>i\<close> the
  index of the entry, \<open>b\<close> the contents of the string builder.\<close>

fun renderEntries ::
  "('l, 'v) lib \<Rightarrow> int \<Rightarrow> int \<Rightarrow> MapEntry list \<Rightarrow> string \<Rightarrow> string" where
  "renderEntries L n i [] b = b"
| "renderEntries L n i (entry # rest) b =
     (let b = b @ Render L labelStyle ''Key:   '';
          b = b @ Render L valueStyle (formatHex (Key entry));
          b = b @ NL;
          b = b @ Render L labelStyle ''Value: '';
          b = b @ Render L valueStyle (formatHex (Value entry));
          b = b @ NL;
          b = (if i < n - 1 then b @ Render L dimStyle ''---'' @ NL else b)
      in renderEntries L n (i + 1) rest b)"

definition mapDump_renderContent :: "('l, 'v) lib \<Rightarrow> 'v mapDumpModel \<Rightarrow> string" where
  "mapDump_renderContent L m =
     (if du_err m \<noteq> None then Render L errorStyle (''Error: '' @ Error (the (du_err m)))
      else if du_loading m then Render L dimStyle ''Loading map contents...''
      else if length (du_entries m) = 0 then Render L dimStyle ''Map contains no entries''
      else renderEntries L (int (length (du_entries m))) 0 (du_entries m) [])"

definition mapDump_updateViewport :: "('l, 'v) lib \<Rightarrow> 'v mapDumpModel \<Rightarrow> 'v mapDumpModel" where
  "mapDump_updateViewport L m =
     (let content = mapDump_renderContent L m in
      if \<not> du_ready m then
        m\<lparr>du_viewport := vp_SetContent L content (vp_New L (du_width m) (du_height m - 4)),
          du_ready := True\<rparr>
      else m\<lparr>du_viewport := vp_SetContent L content (du_viewport m)\<rparr>)"

definition newMapDumpModel :: "('l, 'v) lib \<Rightarrow> int \<Rightarrow> int \<Rightarrow> 'v mapDumpModel" where
  "newMapDumpModel L w h = \<lparr>
     du_mapID = 0, du_mapName = [], du_entries = [], du_viewport = vp_Zero L,
     du_width = w, du_height = h, du_ready = False, du_loading = False, du_err = None \<rparr>"

definition mapDump_SetMapDump ::
  "('l, 'v) lib \<Rightarrow> u32 \<Rightarrow> string \<Rightarrow> MapEntry list \<Rightarrow> 'v mapDumpModel \<Rightarrow> 'v mapDumpModel" where
  "mapDump_SetMapDump L mapID mapName entries m =
     mapDump_updateViewport L
       (m\<lparr>du_mapID := mapID, du_mapName := mapName, du_entries := entries,
          du_loading := False, du_err := None\<rparr>)"

definition mapDump_SetError :: "('l, 'v) lib \<Rightarrow> error \<Rightarrow> 'v mapDumpModel \<Rightarrow> 'v mapDumpModel" where
  "mapDump_SetError L e m =
     mapDump_updateViewport L (m\<lparr>du_err := Some e, du_loading := False\<rparr>)"

definition mapDump_SetLoading :: "('l, 'v) lib \<Rightarrow> bool \<Rightarrow> 'v mapDumpModel \<Rightarrow> 'v mapDumpModel" where
  "mapDump_SetLoading L loading m = mapDump_updateViewport L (m\<lparr>du_loading := loading\<rparr>)"

definition mapDump_SetSize :: "('l, 'v) lib \<Rightarrow> int \<Rightarrow> int \<Rightarrow> 'v mapDumpModel \<Rightarrow> 'v mapDumpModel" where
  "mapDump_SetSize L w h m =
     (let m = m\<lparr>du_width := w, du_height := h\<rparr>;
          m = (if du_ready m
               then m\<lparr>du_viewport := vp_SetHeight L (h - 4) (vp_SetWidth L w (du_viewport m))\<rparr>
               else m)
      in mapDump_updateViewport L m)"

definition mapDump_Update ::
  "('l, 'v) lib \<Rightarrow> msg \<Rightarrow> 'v mapDumpModel \<Rightarrow> 'v mapDumpModel \<times> cmd option" where
  "mapDump_Update L ev m =
     (let (vp, c) = vp_Update L ev (du_viewport m) in (m\<lparr>du_viewport := vp\<rparr>, c))"

subsection \<open>Reading the rendering back\<close>

text \<open>A decoder for the output of \<open>formatHex\<close>, written to state the round trip: groups of
  two hexadecimal digits separated by single spaces.\<close>

fun indexOf :: "'a \<Rightarrow> 'a list \<Rightarrow> nat option" where
  "indexOf c [] = None"
| "indexOf c (x # xs) = (if c = x then Some 0 else map_option Suc (indexOf c xs))"

definition hexPair :: "char \<Rightarrow> char \<Rightarrow> byte option" where
  "hexPair hi lo =
     (case (indexOf hi hexdigits, indexOf lo hexdigits) of
        (Some h, Some l) \<Rightarrow> Some (of_nat (16 * h + l))
      | _ \<Rightarrow> None)"

fun decodeHex :: "string \<Rightarrow> byte list option" where
  "decodeHex [hi, lo] = map_option (\<lambda>b. [b]) (hexPair hi lo)"
| "decodeHex (hi # lo # sp # rest) =
     (if sp = CHR '' '' then
        (case (hexPair hi lo, decodeHex rest) of
           (Some b, Some bs) \<Rightarrow> Some (b # bs)
         | _ \<Rightarrow> None)
      else None)"
| "decodeHex _ = None"

text \<open>The lines the dump view is specified to show: a key line and a value line per entry,
  a separator line between two entries.\<close>

definition keyLine :: "('l, 'v) lib \<Rightarrow> MapEntry \<Rightarrow> string" where
  "keyLine L e = Render L labelStyle ''Key:   '' @ Render L valueStyle (formatHex (Key e))"

definition valueLine :: "('l, 'v) lib \<Rightarrow> MapEntry \<Rightarrow> string" where
  "valueLine L e = Render L labelStyle ''Value: '' @ Render L valueStyle (formatHex (Value e))"

definition separatorLine :: "('l, 'v) lib \<Rightarrow> string" where
  "separatorLine L = Render L dimStyle ''---''"

fun dumpLines :: "('l, 'v) lib \<Rightarrow> MapEntry list \<Rightarrow> string list" where
  "dumpLines L [] = []"
| "dumpLines L [e] = [keyLine L e, valueLine L e]"
| "dumpLines L (e # e' # es) =
     [keyLine L e, valueLine L e, separatorLine L] @ dumpLines L (e' # es)"

definition unlines :: "string list \<Rightarrow> string" where
  "unlines ls = concat (map (\<lambda>l. l @ NL) ls)"

text \<open>\<^verbatim>\<open>fmt.Sprintf("%d", n)\<close> for an unsigned \<open>n\<close>\<close>

fun sprintf_d :: "nat \<Rightarrow> string" where
  "sprintf_d n =
     (if n < 10 then [''0123456789'' ! n]
      else sprintf_d (n div 10) @ [''0123456789'' ! (n mod 10)])"

declare sprintf_d.simps [simp del]

definition mapDump_View :: "('l, 'v) lib \<Rightarrow> 'v mapDumpModel \<Rightarrow> string" where
  "mapDump_View L m =
     (let title =
        (if du_mapName m \<noteq> [] then
           Render L titleStyle
             (''Map Dump: '' @ du_mapName m @ '' (ID: '' @ sprintf_d (unat (du_mapID m)) @ '')'')
         else if du_mapID m \<noteq> 0 then
           Render L titleStyle (''Map Dump: ID '' @ sprintf_d (unat (du_mapID m)))
         else Render L titleStyle ''Map Dump'')
      in if \<not> du_ready m then title @ NL @ NL @ ''Loading...''
         else title @ NL @ NL @ vp_View L (du_viewport m))"

section \<open>Program detail view (progdetail.go)\<close>

text \<open>\<open>pd_cursor\<close> is the index of the selected map id; \<open>-1\<close> means that none is selected.\<close>

record 'v progDetailModel =
  pd_program :: "ProgramInfo option"
  pd_viewport :: 'v
  pd_mapIDs :: "u32 list"
  pd_cursor :: int
  pd_width :: int
  pd_height :: int
  pd_ready :: bool

definition newProgDetailModel :: "('l, 'v) lib \<Rightarrow> int \<Rightarrow> int \<Rightarrow> 'v progDetailModel" where
  "newProgDetailModel L w h = \<lparr>
     pd_program = None, pd_viewport = vp_Zero L, pd_mapIDs = [], pd_cursor = - 1,
     pd_width = w, pd_height = h, pd_ready = False \<rparr>"

text \<open>The loop of \<^verbatim>\<open>renderContent\<close> over \<^verbatim>\<open>m.mapIDs\<close>; the marker of the selected line is
  U+25B6 in UTF-8.\<close>

fun renderMapIDs :: "('l, 'v) lib \<Rightarrow> int \<Rightarrow> int \<Rightarrow> u32 list \<Rightarrow> string \<Rightarrow> string" where
  "renderMapIDs L cursor i [] b = b"
| "renderMapIDs L cursor i (mapID # rest) b =
     (let b = (if i = cursor
               then b @ Render L selectedStyle
                      ([CHR 0xE2, CHR 0x96, CHR 0xB6] @ '' Map ID: '' @ sprintf_d (unat mapID))
               else b @ Render L normalStyle (''  Map ID: '' @ sprintf_d (unat mapID)));
          b = b @ NL
      in renderMapIDs L cursor (i + 1) rest b)"

definition progDetail_renderContent :: "('l, 'v) lib \<Rightarrow> 'v progDetailModel \<Rightarrow> string" where
  "progDetail_renderContent L m =
     (case pd_program m of
        None \<Rightarrow> Render L dimStyle ''No program selected''
      | Some p \<Rightarrow>
         (let b = Render L labelStyle ''ID:          '' @ Render L valueStyle (sprintf_d (unat (p_ID p))) @ NL;
              b = b @ Render L labelStyle ''Name:        '' @ Render L valueStyle (p_Name p) @ NL;
              b = b @ Render L labelStyle ''Type:        '' @ Render L valueStyle (p_Type p) @ NL;
              b = b @ Render L labelStyle ''Tag:         '' @ Render L valueStyle (p_Tag p) @ NL;
              gplStr = (if p_GPL p then ''Yes'' else ''No'');
              b = b @ Render L labelStyle ''GPL:         '' @ Render L valueStyle gplStr @ NL;
              b = b @ Render L labelStyle ''Loaded At:   '' @ Render L valueStyle (p_LoadedAt p) @ NL;
              b = b @ Render L labelStyle ''UID:         '' @ Render L valueStyle (sprintf_d (unat (p_UID p))) @ NL;
              b = b @ Render L labelStyle ''Bytes Xlated:'' @ Render L valueStyle (sprintf_d (unat (p_BytesXlated p))) @ NL;
              b = b @ Render L labelStyle ''Bytes JIT:   '' @ Render L valueStyle (sprintf_d (unat (p_BytesJIT p))) @ NL;
              b = b @ Render L labelStyle ''MemLock:     '' @ Render L valueStyle (sprintf_d (unat (p_MemLock p))) @ NL;
              b = b @ NL @ Render L titleStyle ''Associated Maps'' @ NL
          in if length (pd_mapIDs m) = 0
             then b @ Render L dimStyle ''No associated maps'' @ NL
             else renderMapIDs L (pd_cursor m) 0 (pd_mapIDs m) b
                    @ NL @ Render L dimStyle ''Press Enter to view map details''))"

definition progDetail_updateViewport ::
  "('l, 'v) lib \<Rightarrow> 'v progDetailModel \<Rightarrow> 'v progDetailModel" where
  "progDetail_updateViewport L m =
     (if pd_program m = None then m
      else
        (let content = progDetail_renderContent L m in
         if \<not> pd_ready m then
           m\<lparr>pd_viewport := vp_SetContent L content (vp_New L (pd_width m) (pd_height m - 4)),
             pd_ready := True\<rparr>
         else m\<lparr>pd_viewport := vp_SetContent L content (pd_viewport m)\<rparr>))"

definition progDetail_SetProgram ::
  "('l, 'v) lib \<Rightarrow> ProgramInfo option \<Rightarrow> 'v progDetailModel \<Rightarrow> 'v progDetailModel" where
  "progDetail_SetProgram L prog m =
     (let m = m\<lparr>pd_program := prog, pd_cursor := - 1\<rparr>;
          m = (if prog \<noteq> None \<and> length (p_MapIDs (the prog)) > 0
               then m\<lparr>pd_mapIDs := p_MapIDs (the prog), pd_cursor := 0\<rparr>
               else m\<lparr>pd_mapIDs := []\<rparr>)
      in progDetail_updateViewport L m)"

definition progDetail_SetSize ::
  "('l, 'v) lib \<Rightarrow> int \<Rightarrow> int \<Rightarrow> 'v progDetailModel \<Rightarrow> 'v progDetailModel" where
  "progDetail_SetSize L w h m =
     (let m = m\<lparr>pd_width := w, pd_height := h\<rparr>;
          m = (if pd_ready m
               then m\<lparr>pd_viewport := vp_SetHeight L (h - 4) (vp_SetWidth L w (pd_viewport m))\<rparr>
               else m)
      in progDetail_updateViewport L m)"

text \<open>\<^verbatim>\<open>Update\<close> returns the model, a command and the selected map id (nil if none).\<close>

definition progDetail_Update ::
  "('l, 'v) lib \<Rightarrow> msg \<Rightarrow> 'v progDetailModel \<Rightarrow> 'v progDetailModel \<times> cmd option \<times> u32 option" where
  "progDetail_Update L ev m =
     (let scroll = (let (vp, c) = vp_Update L ev (pd_viewport m)
                    in (m\<lparr>pd_viewport := vp\<rparr>, c, None))
      in case ev of
        KeyMsg k \<Rightarrow>
          if k = ''up'' \<or> k = ''k'' then
            (if length (pd_mapIDs m) > 0 \<and> pd_cursor m > 0
             then (progDetail_updateViewport L (m\<lparr>pd_cursor := pd_cursor m - 1\<rparr>), None, None)
             else (m, None, None))
          else if k = ''down'' \<or> k = ''j'' then
            (if length (pd_mapIDs m) > 0 \<and> pd_cursor m < int (length (pd_mapIDs m)) - 1
             then (progDetail_updateViewport L (m\<lparr>pd_cursor := pd_cursor m + 1\<rparr>), None, None)
             else (m, None, None))
          else if k = ''enter'' then
            (if length (pd_mapIDs m) > 0 \<and> pd_cursor m \<ge> 0
                \<and> pd_cursor m < int (length (pd_mapIDs m))
             then (m, None, Some (pd_mapIDs m ! nat (pd_cursor m)))
             else (m, None, None))
          else scroll
      | _ \<Rightarrow> scroll)"

definition progDetail_View :: "('l, 'v) lib \<Rightarrow> 'v progDetailModel \<Rightarrow> string" where
  "progDetail_View L m =
     (case pd_program m of
        None \<Rightarrow> Render L titleStyle ''Program Details'' @ NL @ NL
                 @ Render L dimStyle ''No program selected''
      | Some p \<Rightarrow>
         (let title = Render L titleStyle (''Program: '' @ p_Name p)
          in if \<not> pd_ready m then title @ NL @ NL @ ''Loading...''
             else title @ NL @ NL @ vp_View L (pd_viewport m)))"

section \<open>Map detail view (mapdetail.go)\<close>

record 'v mapDetailModel =
  md_mapInfo :: "MapInfo option"
  md_viewport :: 'v
  md_cursor :: int
  md_width :: int
  md_height :: int
  md_ready :: bool

definition newMapDetailModel :: "('l, 'v) lib \<Rightarrow> int \<Rightarrow> int \<Rightarrow> 'v mapDetailModel" where
  "newMapDetailModel L w h = \<lparr>
     md_mapInfo = None, md_viewport = vp_Zero L, md_cursor = 0,
     md_width = w, md_height = h, md_ready = False \<rparr>"

definition mapDetail_renderContent :: "('l, 'v) lib \<Rightarrow> 'v mapDetailModel \<Rightarrow> string" where
  "mapDetail_renderContent L m =
     (case md_mapInfo m of
        None \<Rightarrow> Render L dimStyle ''No map selected''
      | Some mi \<Rightarrow>
         (let b = Render L labelStyle ''ID:          '' @ Render L valueStyle (sprintf_d (unat (mi_ID mi))) @ NL;
              b = b @ Render L labelStyle ''Name:        '' @ Render L valueStyle (mi_Name mi) @ NL;
              b = b @ Render L labelStyle ''Type:        '' @ Render L valueStyle (mi_Type mi) @ NL;
              b = b @ Render L labelStyle ''Key Size:    '' @ Render L valueStyle (sprintf_d (unat (mi_KeySize mi))) @ NL;
              b = b @ Render L labelStyle ''Value Size:  '' @ Render L valueStyle (sprintf_d (unat (mi_ValueSize mi))) @ NL;
              b = b @ Render L labelStyle ''Max Entries: '' @ Render L valueStyle (sprintf_d (unat (mi_MaxEntries mi))) @ NL;
              b = b @ Render L labelStyle ''Flags:       '' @ Render L valueStyle (sprintf_d (unat (mi_Flags mi))) @ NL;
              b = b @ Render L labelStyle ''MemLock:     '' @ Render L valueStyle (sprintf_d (unat (mi_MemLock mi))) @ NL;
              b = b @ Render L labelStyle ''Loaded At:   '' @ Render L valueStyle (mi_LoadedAt mi) @ NL;
              b = b @ Render L labelStyle ''UID:         '' @ Render L valueStyle (sprintf_d (unat (mi_UID mi))) @ NL;
              b = b @ NL @ Render L titleStyle ''Actions'' @ NL;
              b = (if md_cursor m = 0
                   then b @ Render L selectedStyle ([CHR 0xE2, CHR 0x96, CHR 0xB6] @ '' Dump Contents'')
                   else b @ Render L normalStyle ''  Dump Contents'')
          in b @ NL @ NL @ Render L dimStyle ''Press Enter to dump map contents''))"

definition mapDetail_updateViewport ::
  "('l, 'v) lib \<Rightarrow> 'v mapDetailModel \<Rightarrow> 'v mapDetailModel" where
  "mapDetail_updateViewport L m =
     (if md_mapInfo m = None then m
      else
        (let content = mapDetail_renderContent L m in
         if \<not> md_ready m then
           m\<lparr>md_viewport := vp_SetContent L content (vp_New L (md_width m) (md_height m - 4)),
             md_ready := True\<rparr>
         else m\<lparr>md_viewport := vp_SetContent L content (md_viewport m)\<rparr>))"

definition mapDetail_SetMap ::
  "('l, 'v) lib \<Rightarrow> MapInfo option \<Rightarrow> 'v mapDetailModel \<Rightarrow> 'v mapDetailModel" where
  "mapDetail_SetMap L mapInfo m =
     mapDetail_updateViewport L (m\<lparr>md_mapInfo := mapInfo, md_cursor := 0\<rparr>)"

definition mapDetail_SetSize ::
  "('l, 'v) lib \<Rightarrow> int \<Rightarrow> int \<Rightarrow> 'v mapDetailModel \<Rightarrow> 'v mapDetailModel" where
  "mapDetail_SetSize L w h m =
     (let m = m\<lparr>md_width := w, md_height := h\<rparr>;
          m = (if md_ready m
               then m\<lparr>md_viewport := vp_SetHeight L (h - 4) (vp_SetWidth L w (md_viewport m))\<rparr>
               else m)
      in mapDetail_updateViewport L m)"

text \<open>\<^verbatim>\<open>Update\<close> returns the model, a command and whether Dump was selected.\<close>

definition mapDetail_Update ::
  "('l, 'v) lib \<Rightarrow> msg \<Rightarrow> 'v mapDetailModel \<Rightarrow> 'v mapDetailModel \<times> cmd option \<times> bool" where
  "mapDetail_Update L ev m =
     (let scroll = (let (vp, c) = vp_Update L ev (md_viewport m)
                    in (m\<lparr>md_viewport := vp\<rparr>, c, False))
      in case ev of
        KeyMsg k \<Rightarrow>
          if k = ''up'' \<or> k = ''k'' then (m, None, False)
          else if k = ''down'' \<or> k = ''j'' then (m, None, False)
          else if k = ''enter'' then
            (if md_mapInfo m \<noteq> None \<and> md_cursor m = 0 then (m, None, True)
             else (m, None, False))
          else scroll
      | _ \<Rightarrow> scroll)"

definition mapDetail_View :: "('l, 'v) lib \<Rightarrow> 'v mapDetailModel \<Rightarrow> string" where
  "mapDetail_View L m =
     (case md_mapInfo m of
        None \<Rightarrow> Render L titleStyle ''Map Details'' @ NL @ NL
                 @ Render L dimStyle ''No map selected''
      | Some mi \<Rightarrow>
         (let title = Render L titleStyle (''Map: '' @ mi_Name mi)
          in if \<not> md_ready m then title @ NL @ NL @ ''Loading...''
             else title @ NL @ NL @ vp_View L (md_viewport m)))"

definition mapDetail_GetMapInfo :: "'v mapDetailModel \<Rightarrow> MapInfo option" where
  "mapDetail_GetMapInfo m = md_mapInfo m"

definition mapDetail_GetMapID :: "'v mapDetailModel \<Rightarrow> u32" where
  "mapDetail_GetMapID m = (case md_mapInfo m of Some mi \<Rightarrow> mi_ID mi | None \<Rightarrow> 0)"

section \<open>Menu (menu.go)\<close>

record 'l menuModel =
  menu_list :: 'l

definition listHeight :: "int \<Rightarrow> int" where
  "listHeight height = (let listHeight = height - 6 in if listHeight < 3 then 3 else listHeight)"

definition menuItems :: "Item list" where
  "menuItems =
     [MenuItem \<lparr>title = ''Programs'', description = ''Browse loaded BPF programs'',
                target = ViewProgList\<rparr>,
      MenuItem \<lparr>title = ''Maps'', description = ''Browse loaded BPF maps'',
                target = ViewMapList\<rparr>]"

definition newMenuModel :: "('l, 'v) lib \<Rightarrow> int \<Rightarrow> int \<Rightarrow> 'l menuModel" where
  "newMenuModel L w h = \<lparr>
     menu_list = list_New L menuItems w (listHeight h)
       \<lparr>o_Title = ''BPF TUI Explorer'', o_ShowStatusBar = False,
        o_FilteringEnabled = False, o_ShowHelp = False\<rparr> \<rparr>"

text \<open>\<^verbatim>\<open>Update\<close> returns the model, a command and the target view of the selected item (nil
  if Enter was not pressed on a menu item).\<close>

definition menu_Update ::
  "('l, 'v) lib \<Rightarrow> msg \<Rightarrow> 'l menuModel \<Rightarrow> 'l menuModel \<times> cmd option \<times> ViewState option" where
  "menu_Update L ev m =
     (let forward = (let (l, c) = list_Update L ev (menu_list m)
                     in (m\<lparr>menu_list := l\<rparr>, c, None))
      in case ev of
        KeyMsg k \<Rightarrow>
          if k = ''enter'' then
            (case list_SelectedItem L (menu_list m) of
               Some (MenuItem item) \<Rightarrow> (m, None, Some (target item))
             | _ \<Rightarrow> forward)
          else forward
      | _ \<Rightarrow> forward)"

definition menu_View :: "('l, 'v) lib \<Rightarrow> 'l menuModel \<Rightarrow> string" where
  "menu_View L m = list_View L (menu_list m)"

definition menu_SetSize :: "('l, 'v) lib \<Rightarrow> int \<Rightarrow> int \<Rightarrow> 'l menuModel \<Rightarrow> 'l menuModel" where
  "menu_SetSize L w h m = m\<lparr>menu_list := list_SetSize L w (listHeight h) (menu_list m)\<rparr>"

section \<open>Programs list (proglist.go)\<close>

record 'l progListModel =
  pl_list :: 'l
  pl_programs :: "ProgramInfo list"
  pl_err :: "error option"

definition newProgListModel :: "('l, 'v) lib \<Rightarrow> int \<Rightarrow> int \<Rightarrow> 'l progListModel" where
  "newProgListModel L w h = \<lparr>
     pl_list = list_New L [] w (listHeight h)
       \<lparr>o_Title = ''BPF Programs'', o_ShowStatusBar = True,
        o_FilteringEnabled = True, o_ShowHelp = False\<rparr>,
     pl_programs = [],
     pl_err = None \<rparr>"

definition progList_SetPrograms ::
  "('l, 'v) lib \<Rightarrow> ProgramInfo list \<Rightarrow> 'l progListModel \<Rightarrow> 'l progListModel" where
  "progList_SetPrograms L programs m =
     (let m = m\<lparr>pl_programs := programs\<rparr>;
          items = map ProgItem programs
      in m\<lparr>pl_list := list_SetItems L items (pl_list m)\<rparr>)"

text \<open>\<^verbatim>\<open>Update\<close> returns the model, a command and the selected program (nil if none). While
  the list is filtering, the \<^verbatim>\<open>break\<close> leaves the key to the list widget.\<close>

definition progList_Update ::
  "('l, 'v) lib \<Rightarrow> msg \<Rightarrow> 'l progListModel \<Rightarrow>
     'l progListModel \<times> cmd option \<times> ProgramInfo option" where
  "progList_Update L ev m =
     (let forward = (let (l, c) = list_Update L ev (pl_list m)
                     in (m\<lparr>pl_list := l\<rparr>, c, None))
      in case ev of
        KeyMsg k \<Rightarrow>
          if list_FilterState L (pl_list m) = Filtering then forward
          else if k = ''enter'' then
            (case list_SelectedItem L (pl_list m) of
               Some (ProgItem info) \<Rightarrow> (m, None, Some info)
             | _ \<Rightarrow> forward)
          else forward
      | _ \<Rightarrow> forward)"

definition progList_View :: "('l, 'v) lib \<Rightarrow> 'l progListModel \<Rightarrow> string" where
  "progList_View L m =
     (if length (pl_programs m) = 0 \<and> pl_err m = None then
        Render L titleStyle ''BPF Programs'' @ NL @ NL
          @ Render L dimStyle ''No BPF programs loaded''
      else if pl_err m \<noteq> None then
        Render L titleStyle ''BPF Programs'' @ NL @ NL
          @ Render L errorStyle (''Error: '' @ Error (the (pl_err m)))
      else list_View L (pl_list m))"

definition progList_SetSize ::
  "('l, 'v) lib \<Rightarrow> int \<Rightarrow> int \<Rightarrow> 'l progListModel \<Rightarrow> 'l progListModel" where
  "progList_SetSize L w h m = m\<lparr>pl_list := list_SetSize L w (listHeight h) (pl_list m)\<rparr>"

definition progList_SetError :: "error \<Rightarrow> 'l progListModel \<Rightarrow> 'l progListModel" where
  "progList_SetError e m = m\<lparr>pl_err := Some e\<rparr>"

definition progList_IsFiltering :: "('l, 'v) lib \<Rightarrow> 'l progListModel \<Rightarrow> bool" where
  "progList_IsFiltering L m = (list_FilterState L (pl_list m) = Filtering)"

definition progList_ResetFilter :: "('l, 'v) lib \<Rightarrow> 'l progListModel \<Rightarrow> 'l progListModel" where
  "progList_ResetFilter L m = m\<lparr>pl_list := list_ResetFilter L (pl_list m)\<rparr>"

section \<open>Maps list (maplist.go)\<close>

record 'l mapListModel =
  ml_list :: 'l
  ml_maps :: "MapInfo list"
  ml_err :: "error option"

definition newMapListModel :: "('l, 'v) lib \<Rightarrow> int \<Rightarrow> int \<Rightarrow> 'l mapListModel" where
  "newMapListModel L w h = \<lparr>
     ml_list = list_New L [] w (listHeight h)
       \<lparr>o_Title = ''BPF Maps'', o_ShowStatusBar = True,
        o_FilteringEnabled = True, o_ShowHelp = False\<rparr>,
     ml_maps = [],
     ml_err = None \<rparr>"

definition mapList_SetMaps ::
  "('l, 'v) lib \<Rightarrow> MapInfo list \<Rightarrow> 'l mapListModel \<Rightarrow> 'l mapListModel" where
  "mapList_SetMaps L maps m =
     (let m = m\<lparr>ml_maps := maps\<rparr>;
          items = map MapItem maps
      in m\<lparr>ml_list := list_SetItems L items (ml_list m)\<rparr>)"

definition mapList_Update ::
  "('l, 'v) lib \<Rightarrow> msg \<Rightarrow> 'l mapListModel \<Rightarrow>
     'l mapListModel \<times> cmd option \<times> MapInfo option" where
  "mapList_Update L ev m =
     (let forward = (let (l, c) = list_Update L ev (ml_list m)
                     in (m\<lparr>ml_list := l\<rparr>, c, None))
      in case ev of
        KeyMsg k \<Rightarrow>
          if list_FilterState L (ml_list m) = Filtering then forward
          else if k = ''enter'' then
            (case list_SelectedItem L (ml_list m) of
               Some (MapItem info) \<Rightarrow> (m, None, Some info)
             | _ \<Rightarrow> forward)
          else forward
      | _ \<Rightarrow> forward)"

definition mapList_View :: "('l, 'v) lib \<Rightarrow> 'l mapListModel \<Rightarrow> string" where
  "mapList_View L m =
     (if length (ml_maps m) = 0 \<and> ml_err m = None then
        Render L titleStyle ''BPF Maps'' @ NL @ NL
          @ Render L dimStyle ''No BPF maps loaded''
      else if ml_err m \<noteq> None then
        Render L titleStyle ''BPF Maps'' @ NL @ NL
          @ Render L errorStyle (''Error: '' @ Error (the (ml_err m)))
      else list_View L (ml_list m))"

definition mapList_SetSize ::
  "('l, 'v) lib \<Rightarrow> int \<Rightarrow> int \<Rightarrow> 'l mapListModel \<Rightarrow> 'l mapListModel" where
  "mapList_SetSize L w h m = m\<lparr>ml_list := list_SetSize L w (listHeight h) (ml_list m)\<rparr>"

definition mapList_SetError :: "error \<Rightarrow> 'l mapListModel \<Rightarrow> 'l mapListModel" where
  "mapList_SetError e m = m\<lparr>ml_err := Some e\<rparr>"

definition mapList_IsFiltering :: "('l, 'v) lib \<Rightarrow> 'l mapListModel \<Rightarrow> bool" where
  "mapList_IsFiltering L m = (list_FilterState L (ml_list m) = Filtering)"

definition mapList_ResetFilter :: "('l, 'v) lib \<Rightarrow> 'l mapListModel \<Rightarrow> 'l mapListModel" where
  "mapList_ResetFilter L m = m\<lparr>ml_list := list_ResetFilter L (ml_list m)\<rparr>"

section \<open>Root model (tui.go)\<close>

record ('l, 'v) Model =
  state :: ViewState
  history :: "ViewState list"
  progSvc :: "ProgService option"
  mapsSvc :: "MapsService option"
  menu :: "'l menuModel"
  progList :: "'l progListModel"
  progDetail :: "'v progDetailModel"
  mapList :: "'l mapListModel"
  mapDetail :: "'v mapDetailModel"
  mapDump :: "'v mapDumpModel"
  width :: int
  height :: int
  err :: "error option"
  keys :: keyMap
  showHelp :: bool

definition NewModel ::
  "('l, 'v) lib \<Rightarrow> ProgService option \<Rightarrow> MapsService option \<Rightarrow> ('l, 'v) Model" where
  "NewModel L ps ms = \<lparr>
     state = ViewMenu,
     history = [],
     progSvc = ps,
     mapsSvc = ms,
     menu = newMenuModel L 80 24,
     progList = newProgListModel L 80 24,
     progDetail = newProgDetailModel L 80 24,
     mapList = newMapListModel L 80 24,
     mapDetail = newMapDetailModel L 80 24,
     mapDump = newMapDumpModel L 80 24,
     width = 0,
     height = 0,
     err = None,
     keys = defaultKeyMap,
     showHelp = False \<rparr>"

definition pushState :: "ViewState \<Rightarrow> ('l, 'v) Model \<Rightarrow> ('l, 'v) Model" where
  "pushState newState m = m\<lparr>history := history m @ [state m], state := newState\<rparr>"

text \<open>\<^verbatim>\<open>popState\<close> returns the previous state and shortens the history.\<close>

definition popState :: "('l, 'v) Model \<Rightarrow> ViewState \<times> ('l, 'v) Model" where
  "popState m =
     (if length (history m) = 0 then (ViewMenu, m)
      else
        (let lastIdx = length (history m) - 1;
             prevState = history m ! lastIdx
         in (prevState, m\<lparr>history := take lastIdx (history m)\<rparr>)))"

definition checkPermissions :: "('l, 'v) Model \<Rightarrow> error option" where
  "checkPermissions m =
     (case progSvc m of
        None \<Rightarrow> None
      | Some svc \<Rightarrow>
         (case prog_List svc of
            Inl e \<Rightarrow>
              if IsPermissionError (Some e) then Some e
              else Some (PermissionError (Some e))
          | Inr programs \<Rightarrow> None))"

text \<open>\<^verbatim>\<open>Init\<close> has a value receiver: the error it stores is lost with the copy, and it
  returns no command.\<close>

definition Init :: "('l, 'v) Model \<Rightarrow> cmd option" where
  "Init m = None"

subsection \<open>Loading data\<close>

definition loadPrograms :: "('l, 'v) lib \<Rightarrow> ('l, 'v) Model \<Rightarrow> ('l, 'v) Model" where
  "loadPrograms L m =
     (let m = m\<lparr>progList := progList_ResetFilter L (progList m)\<rparr> in
      case progSvc m of
        None \<Rightarrow> m\<lparr>progList := progList_SetPrograms L [] (progList m)\<rparr>
      | Some svc \<Rightarrow>
         (case prog_List svc of
            Inl e \<Rightarrow> m\<lparr>progList := progList_SetError e (progList m)\<rparr>
          | Inr programs \<Rightarrow> m\<lparr>progList := progList_SetPrograms L programs (progList m)\<rparr>))"

definition loadMaps :: "('l, 'v) lib \<Rightarrow> ('l, 'v) Model \<Rightarrow> ('l, 'v) Model" where
  "loadMaps L m =
     (let m = m\<lparr>mapList := mapList_ResetFilter L (mapList m)\<rparr> in
      case mapsSvc m of
        None \<Rightarrow> m\<lparr>mapList := mapList_SetMaps L [] (mapList m)\<rparr>
      | Some svc \<Rightarrow>
         (case maps_List svc of
            Inl e \<Rightarrow> m\<lparr>mapList := mapList_SetError e (mapList m)\<rparr>
          | Inr maps \<Rightarrow> m\<lparr>mapList := mapList_SetMaps L maps (mapList m)\<rparr>))"

definition loadMapByID :: "('l, 'v) lib \<Rightarrow> u32 \<Rightarrow> ('l, 'v) Model \<Rightarrow> ('l, 'v) Model" where
  "loadMapByID L mapID m =
     (case mapsSvc m of
        None \<Rightarrow> m
      | Some svc \<Rightarrow>
         (case maps_Get svc mapID of
            Inl e \<Rightarrow> m\<lparr>err := Some e\<rparr>
          | Inr mapInfo \<Rightarrow> m\<lparr>mapDetail := mapDetail_SetMap L mapInfo (mapDetail m)\<rparr>))"

definition loadMapDump :: "('l, 'v) lib \<Rightarrow> u32 \<Rightarrow> ('l, 'v) Model \<Rightarrow> ('l, 'v) Model" where
  "loadMapDump L mapID m =
     (case mapsSvc m of
        None \<Rightarrow> m\<lparr>mapDump := mapDump_SetMapDump L mapID [] [] (mapDump m)\<rparr>
      | Some svc \<Rightarrow>
         (let mapName =
            (case mapDetail_GetMapInfo (mapDetail m) of
               Some mapInfo \<Rightarrow> if mi_ID mapInfo = mapID then mi_Name mapInfo else []
             | None \<Rightarrow> [])
          in case maps_Dump svc mapID of
               Inl e \<Rightarrow> m\<lparr>mapDump := mapDump_SetError L e (mapDump m)\<rparr>
             | Inr entries \<Rightarrow>
                 m\<lparr>mapDump := mapDump_SetMapDump L mapID mapName entries (mapDump m)\<rparr>))"

subsection \<open>Key handling\<close>

text \<open>The handlers take the key's string \<open>k\<close> and pass \<open>KeyMsg k\<close> on to the sub-model.\<close>

definition handleMenuKeys ::
  "('l, 'v) lib \<Rightarrow> string \<Rightarrow> ('l, 'v) Model \<Rightarrow> ('l, 'v) Model \<times> cmd option" where
  "handleMenuKeys L k m =
     (let (mn, c, targetView) = menu_Update L (KeyMsg k) (menu m);
          m = m\<lparr>menu := mn\<rparr>
      in case targetView of
           Some t \<Rightarrow>
             (let m = pushState t m;
                  m = (case t of
                         ViewProgList \<Rightarrow> loadPrograms L m
                       | ViewMapList \<Rightarrow> loadMaps L m
                       | _ \<Rightarrow> m)
              in (m, c))
         | None \<Rightarrow> (m, c))"

definition handleProgListKeys ::
  "('l, 'v) lib \<Rightarrow> string \<Rightarrow> ('l, 'v) Model \<Rightarrow> ('l, 'v) Model \<times> cmd option" where
  "handleProgListKeys L k m =
     (let (pl, c, selectedProg) = progList_Update L (KeyMsg k) (progList m);
          m = m\<lparr>progList := pl\<rparr>
      in case selectedProg of
           Some p \<Rightarrow>
             (let m = pushState ViewProgDetail m;
                  m = m\<lparr>progDetail := progDetail_SetProgram L (Some p) (progDetail m)\<rparr>
              in (m, c))
         | None \<Rightarrow> (m, c))"

definition handleProgDetailKeys ::
  "('l, 'v) lib \<Rightarrow> string \<Rightarrow> ('l, 'v) Model \<Rightarrow> ('l, 'v) Model \<times> cmd option" where
  "handleProgDetailKeys L k m =
     (let (pd, c, selectedMapID) = progDetail_Update L (KeyMsg k) (progDetail m);
          m = m\<lparr>progDetail := pd\<rparr>
      in case selectedMapID of
           Some mapID \<Rightarrow>
             (let m = pushState ViewMapDetail m;
                  m = loadMapByID L mapID m
              in (m, c))
         | None \<Rightarrow> (m, c))"

definition handleMapListKeys ::
  "('l, 'v) lib \<Rightarrow> string \<Rightarrow> ('l, 'v) Model \<Rightarrow> ('l, 'v) Model \<times> cmd option" where
  "handleMapListKeys L k m =
     (let (ml, c, selectedMap) = mapList_Update L (KeyMsg k) (mapList m);
          m = m\<lparr>mapList := ml\<rparr>
      in case selectedMap of
           Some mi \<Rightarrow>
             (let m = pushState ViewMapDetail m;
                  m = m\<lparr>mapDetail := mapDetail_SetMap L (Some mi) (mapDetail m)\<rparr>
              in (m, c))
         | None \<Rightarrow> (m, c))"

definition handleMapDetailKeys ::
  "('l, 'v) lib \<Rightarrow> string \<Rightarrow> ('l, 'v) Model \<Rightarrow> ('l, 'v) Model \<times> cmd option" where
  "handleMapDetailKeys L k m =
     (let (md, c, dumpSelected) = mapDetail_Update L (KeyMsg k) (mapDetail m);
          m = m\<lparr>mapDetail := md\<rparr>
      in if dumpSelected then
           (let m = pushState ViewMapDump m;
                m = loadMapDump L (mapDetail_GetMapID (mapDetail m)) m
            in (m, c))
         else (m, c))"

definition handleMapDumpKeys ::
  "('l, 'v) lib \<Rightarrow> string \<Rightarrow> ('l, 'v) Model \<Rightarrow> ('l, 'v) Model \<times> cmd option" where
  "handleMapDumpKeys L k m =
     (let (du, c) = mapDump_Update L (KeyMsg k) (mapDump m)
      in (m\<lparr>mapDump := du\<rparr>, c))"

text \<open>The guard shared by the quit and the help branch: true unless the active view is a
  list that is filtering (the two empty branches of the source).\<close>

definition notFiltering :: "('l, 'v) lib \<Rightarrow> ('l, 'v) Model \<Rightarrow> bool" where
  "notFiltering L m =
     (if state m = ViewProgList \<and> progList_IsFiltering L (progList m) then False
      else if state m = ViewMapList \<and> mapList_IsFiltering L (mapList m) then False
      else True)"

definition handleKeyMsg ::
  "('l, 'v) lib \<Rightarrow> string \<Rightarrow> ('l, 'v) Model \<Rightarrow> ('l, 'v) Model \<times> cmd option" where
  "handleKeyMsg L k m =
     (if Matches k (k_Quit (keys m)) \<and> notFiltering L m then (m, Some Quit)
      else if Matches k (k_Help (keys m)) \<and> notFiltering L m then
        (m\<lparr>showHelp := \<not> showHelp m\<rparr>, None)
      else if showHelp m then (m\<lparr>showHelp := False\<rparr>, None)
      else if Matches k (k_Back (keys m)) then
        (if state m = ViewProgList \<and> progList_IsFiltering L (progList m) then
           handleProgListKeys L k m
         else if state m = ViewMapList \<and> mapList_IsFiltering L (mapList m) then
           handleMapListKeys L k m
         else if state m \<noteq> ViewMenu then
           (let (prevState, m) = popState m
            in (m\<lparr>state := prevState, err := None\<rparr>, None))
         else (m, None))
      else
        (case state m of
           ViewMenu \<Rightarrow> handleMenuKeys L k m
         | ViewProgList \<Rightarrow> handleProgListKeys L k m
         | ViewProgDetail \<Rightarrow> handleProgDetailKeys L k m
         | ViewMapList \<Rightarrow> handleMapListKeys L k m
         | ViewMapDetail \<Rightarrow> handleMapDetailKeys L k m
         | ViewMapDump \<Rightarrow> handleMapDumpKeys L k m))"

definition handleOtherMsg ::
  "('l, 'v) lib \<Rightarrow> msg \<Rightarrow> ('l, 'v) Model \<Rightarrow> ('l, 'v) Model \<times> cmd option" where
  "handleOtherMsg L ev m =
     (case state m of
        ViewProgList \<Rightarrow>
          (let (pl, c, sel) = progList_Update L ev (progList m) in (m\<lparr>progList := pl\<rparr>, c))
      | ViewMapList \<Rightarrow>
          (let (ml, c, sel) = mapList_Update L ev (mapList m) in (m\<lparr>mapList := ml\<rparr>, c))
      | ViewMapDump \<Rightarrow>
          (let (du, c) = mapDump_Update L ev (mapDump m) in (m\<lparr>mapDump := du\<rparr>, c))
      | _ \<Rightarrow> (m, None))"

definition Update ::
  "('l, 'v) lib \<Rightarrow> msg \<Rightarrow> ('l, 'v) Model \<Rightarrow> ('l, 'v) Model \<times> cmd option" where
  "Update L ev m =
     (case ev of
        KeyMsg k \<Rightarrow> handleKeyMsg L k m
      | WindowSizeMsg w h \<Rightarrow>
          (m\<lparr>width := w, height := h,
             menu := menu_SetSize L w h (menu m),
             progList := progList_SetSize L w h (progList m),
             progDetail := progDetail_SetSize L w h (progDetail m),
             mapList := mapList_SetSize L w h (mapList m),
             mapDetail := mapDetail_SetSize L w h (mapDetail m),
             mapDump := mapDump_SetSize L w h (mapDump m)\<rparr>, None)
      | OtherMsg x \<Rightarrow> handleOtherMsg L ev m)"

text \<open>\<^verbatim>\<open>RunWithServices\<close> builds the model, stores the result of the permission check and
  hands the model to the event loop; this is the model it hands over.\<close>

definition RunWithServices ::
  "('l, 'v) lib \<Rightarrow> ProgService option \<Rightarrow> MapsService option \<Rightarrow> ('l, 'v) Model" where
  "RunWithServices L ps ms =
     (let m = NewModel L ps ms in
      case checkPermissions m of
        Some e \<Rightarrow> m\<lparr>err := Some e\<rparr>
      | None \<Rightarrow> m)"

subsection \<open>Rendering\<close>

definition upArrow :: string where "upArrow = [CHR 0xE2, CHR 0x86, CHR 0x91]"
definition downArrow :: string where "downArrow = [CHR 0xE2, CHR 0x86, CHR 0x93]"
definition bullet :: string where "bullet = [CHR 0xE2, CHR 0x80, CHR 0xA2]"

definition renderError :: "('l, 'v) lib \<Rightarrow> ('l, 'v) Model \<Rightarrow> string" where
  "renderError L m =
     Render L errorStyle
       (''Error: '' @ (case err m of Some e \<Rightarrow> Error e | None \<Rightarrow> ''<nil>'')
          @ NL @ NL @ ''Press '' @ [CHR 0x27] @ ''q'' @ [CHR 0x27] @ '' to quit.'')"

definition renderHelp :: "('l, 'v) lib \<Rightarrow> ('l, 'v) Model \<Rightarrow> string" where
  "renderHelp L m =
     (let content = ''Navigation:'' @ NL;
          content = content @ ''  '' @ upArrow @ ''/k      Move up'' @ NL;
          content = content @ ''  '' @ downArrow @ ''/j      Move down'' @ NL;
          content = content @ ''  Enter    Select'' @ NL;
          content =
            (case state m of
               ViewMenu \<Rightarrow>
                 content @ NL @ ''Menu:'' @ NL
                   @ ''  Enter    Open selected option'' @ NL
             | ViewProgList \<Rightarrow>
                 content @ NL @ ''List:'' @ NL
                   @ ''  /        Start fuzzy search'' @ NL
                   @ ''  Esc      Exit search / Go back'' @ NL
                   @ ''  Enter    View details'' @ NL
             | ViewMapList \<Rightarrow>
                 content @ NL @ ''List:'' @ NL
                   @ ''  /        Start fuzzy search'' @ NL
                   @ ''  Esc      Exit search / Go back'' @ NL
                   @ ''  Enter    View details'' @ NL
             | ViewProgDetail \<Rightarrow>
                 content @ NL @ ''Program Detail:'' @ NL
                   @ ''  '' @ upArrow @ ''/'' @ downArrow @ ''      Navigate associated maps'' @ NL
                   @ ''  Enter    View selected map'' @ NL
                   @ ''  Esc      Go back to list'' @ NL
             | ViewMapDetail \<Rightarrow>
                 content @ NL @ ''Map Detail:'' @ NL
                   @ ''  Enter    Dump map contents'' @ NL
                   @ ''  Esc      Go back'' @ NL
             | ViewMapDump \<Rightarrow>
                 content @ NL @ ''Map Dump:'' @ NL
                   @ ''  '' @ upArrow @ ''/'' @ downArrow @ ''      Scroll through entries'' @ NL
                   @ ''  Esc      Go back to map detail'' @ NL);
          content = content @ NL @ ''Global:'' @ NL;
          content = content @ ''  ?        Toggle this help'' @ NL;
          content = content @ ''  q        Quit application'' @ NL
      in Render L titleStyle ''Keyboard Shortcuts'' @ NL @ NL
           @ Render L helpStyle content @ NL
           @ Render L dimStyle ''Press any key to close'')"

definition renderHelpBar :: "('l, 'v) lib \<Rightarrow> ('l, 'v) Model \<Rightarrow> string" where
  "renderHelpBar L m =
     (let filteringBar =
            upArrow @ ''/'' @ downArrow @ '': navigate '' @ bullet @ '' enter: select ''
              @ bullet @ '' esc: cancel search'';
          listBar =
            upArrow @ ''/'' @ downArrow @ '': navigate '' @ bullet @ '' enter: select ''
              @ bullet @ '' /: search '' @ bullet @ '' esc: back '' @ bullet
              @ '' q: quit '' @ bullet @ '' ?: help'';
          shortcuts =
            (case state m of
               ViewMenu \<Rightarrow>
                 upArrow @ ''/'' @ downArrow @ '': navigate '' @ bullet @ '' enter: select ''
                   @ bullet @ '' q: quit '' @ bullet @ '' ?: help''
             | ViewProgList \<Rightarrow>
                 if progList_IsFiltering L (progList m) then filteringBar else listBar
             | ViewMapList \<Rightarrow>
                 if mapList_IsFiltering L (mapList m) then filteringBar else listBar
             | ViewProgDetail \<Rightarrow>
                 upArrow @ ''/'' @ downArrow @ '': select map '' @ bullet @ '' enter: view map ''
                   @ bullet @ '' esc: back '' @ bullet @ '' q: quit '' @ bullet @ '' ?: help''
             | ViewMapDetail \<Rightarrow>
                 ''enter: dump contents '' @ bullet @ '' esc: back '' @ bullet
                   @ '' q: quit '' @ bullet @ '' ?: help''
             | ViewMapDump \<Rightarrow>
                 upArrow @ ''/'' @ downArrow @ '': scroll '' @ bullet @ '' esc: back ''
                   @ bullet @ '' q: quit '' @ bullet @ '' ?: help'')
      in Render L helpStyle shortcuts)"

definition View :: "('l, 'v) lib \<Rightarrow> ('l, 'v) Model \<Rightarrow> string" where
  "View L m =
     (if err m \<noteq> None then renderError L m
      else if showHelp m then renderHelp L m
      else
        (case state m of
           ViewMenu \<Rightarrow> menu_View L (menu m) @ NL @ renderHelpBar L m
         | ViewProgList \<Rightarrow> progList_View L (progList m) @ NL @ renderHelpBar L m
         | ViewProgDetail \<Rightarrow> progDetail_View L (progDetail m) @ NL @ renderHelpBar L m
         | ViewMapList \<Rightarrow> mapList_View L (mapList m) @ NL @ renderHelpBar L m
         | ViewMapDetail \<Rightarrow> mapDetail_View L (mapDetail m) @ NL @ renderHelpBar L m
         | ViewMapDump \<Rightarrow> mapDump_View L (mapDump m) @ NL @ renderHelpBar L m))"

section \<open>Sessions\<close>

text \<open>A session starts from the model of \<open>NewModel\<close> or of \<open>RunWithServices\<close> and proceeds
  by \<open>Update\<close>, one message at a time.\<close>

inductive reachable :: "('l, 'v) lib \<Rightarrow> ('l, 'v) Model \<Rightarrow> bool" for L :: "('l, 'v) lib" where
  new: "reachable L (NewModel L ps ms)"
| run: "reachable L (RunWithServices L ps ms)"
| step: "reachable L m \<Longrightarrow> reachable L (fst (Update L ev m))"

text \<open>The model after the key presses \<open>ks\<close>, and after \<open>n\<close> presses of the back key.\<close>

fun pressKeys :: "('l, 'v) lib \<Rightarrow> string list \<Rightarrow> ('l, 'v) Model \<Rightarrow> ('l, 'v) Model" where
  "pressKeys L [] m = m"
| "pressKeys L (k # ks) m = pressKeys L ks (fst (Update L (KeyMsg k) m))"

definition pressBack :: "('l, 'v) lib \<Rightarrow> nat \<Rightarrow> ('l, 'v) Model \<Rightarrow> ('l, 'v) Model" where
  "pressBack L n m = pressKeys L (replicate n ''esc'') m"

text \<open>The views shown after the first, second, ... \<open>n\<close>-th press of the back key.\<close>

definition backViews :: "('l, 'v) lib \<Rightarrow> nat \<Rightarrow> ('l, 'v) Model \<Rightarrow> ViewState list" where
  "backViews L n m = map (\<lambda>i. state (pressBack L i m)) [1..<Suc n]"

subsection \<open>What is assumed of the widget library\<close>

text \<open>
  The list widget keeps the items it was given: \<open>New\<close> and \<open>SetItems\<close> install them, no other
  call changes them, and the selected item, if any, is one of them.
\<close>

definition list_keeps_items :: "('l, 'v) lib \<Rightarrow> bool" where
  "list_keeps_items L \<longleftrightarrow>
     (\<forall>items w h opts. list_Items L (list_New L items w h opts) = items)
   \<and> (\<forall>items l. list_Items L (list_SetItems L items l) = items)
   \<and> (\<forall>ev l. list_Items L (fst (list_Update L ev l)) = list_Items L l)
   \<and> (\<forall>w h l. list_Items L (list_SetSize L w h l) = list_Items L l)
   \<and> (\<forall>l. list_Items L (list_ResetFilter L l) = list_Items L l)
   \<and> (\<forall>l i. list_SelectedItem L l = Some i \<longrightarrow> i \<in> set (list_Items L l))"

text \<open>A new list is not filtering, and resizing a list does not change its filter state.\<close>

definition list_filter_stable :: "('l, 'v) lib \<Rightarrow> bool" where
  "list_filter_stable L \<longleftrightarrow>
     (\<forall>items w h opts. list_FilterState L (list_New L items w h opts) \<noteq> Filtering)
   \<and> (\<forall>w h l. list_FilterState L (list_SetSize L w h l) = list_FilterState L l)"

text \<open>The widgets never return \<^verbatim>\<open>tea.Quit\<close> themselves.\<close>

definition widgets_never_quit :: "('l, 'v) lib \<Rightarrow> bool" where
  "widgets_never_quit L \<longleftrightarrow>
     (\<forall>ev l. snd (list_Update L ev l) \<noteq> Some Quit)
   \<and> (\<forall>ev v. snd (vp_Update L ev v) \<noteq> Some Quit)"

subsection \<open>A small widget library\<close>

text \<open>
  An implementation of the library interface to run the model on: a list with a cursor
  and a filter mode (no text matching), a viewport that stores its content, and styles
  that leave the text as it is.
\<close>

record simpleList =
  sl_items :: "Item list"
  sl_index :: nat
  sl_filterState :: FilterState
  sl_filteringEnabled :: bool

definition simpleList_Update :: "msg \<Rightarrow> simpleList \<Rightarrow> simpleList \<times> cmd option" where
  "simpleList_Update ev l =
     (case ev of
        KeyMsg k \<Rightarrow>
          if sl_filterState l = Filtering then
            (if k = ''esc'' then (l\<lparr>sl_filterState := Unfiltered, sl_index := 0\<rparr>, None)
             else if k = ''enter'' then (l\<lparr>sl_filterState := FilterApplied\<rparr>, None)
             else (l, None))
          else if k = ''down'' \<or> k = ''j'' then
            (if sl_index l + 1 < length (sl_items l) then (l\<lparr>sl_index := sl_index l + 1\<rparr>, None)
             else (l, None))
          else if k = ''up'' \<or> k = ''k'' then
            (if 0 < sl_index l then (l\<lparr>sl_index := sl_index l - 1\<rparr>, None) else (l, None))
          else if k = ''/'' \<and> sl_filteringEnabled l then
            (l\<lparr>sl_filterState := Filtering\<rparr>, None)
          else (l, None)
      | _ \<Rightarrow> (l, None))"

definition simpleLib :: "(simpleList, string) lib" where
  "simpleLib = \<lparr>
     list_New = (\<lambda>items w h opts.
       \<lparr>sl_items = items, sl_index = 0, sl_filterState = Unfiltered,
        sl_filteringEnabled = o_FilteringEnabled opts\<rparr>),
     list_Items = sl_items,
     list_SelectedItem = (\<lambda>l.
       if sl_index l < length (sl_items l) then Some (sl_items l ! sl_index l) else None),
     list_FilterState = sl_filterState,
     list_SetItems = (\<lambda>items l. l\<lparr>sl_items := items, sl_index := 0\<rparr>),
     list_ResetFilter = (\<lambda>l. l\<lparr>sl_filterState := Unfiltered\<rparr>),
     list_SetSize = (\<lambda>w h l. l),
     list_Update = simpleList_Update,
     list_View = (\<lambda>l. []),
     vp_Zero = [],
     vp_New = (\<lambda>w h. []),
     vp_SetContent = (\<lambda>content v. content),
     vp_SetWidth = (\<lambda>w v. v),
     vp_SetHeight = (\<lambda>h v. v),
     vp_Update = (\<lambda>ev v. (v, None)),
     vp_View = (\<lambda>v. v),
     Render = (\<lambda>st s. s) \<rparr>"

text \<open>Services for the examples: one program \<open>7\<close> with the associated maps \<open>10\<close> and \<open>20\<close>;
  a maps service that knows map \<open>10\<close> only and whose dump fails.\<close>

definition exampleProgram :: ProgramInfo where
  "exampleProgram = \<lparr>
     p_ID = 7, p_Type = ''xdp'', p_Name = ''prog'', p_Tag = ''abc'', p_GPL = True,
     p_LoadedAt = [], p_UID = 0, p_BytesXlated = 0, p_BytesJIT = 0, p_MemLock = 0,
     p_MapIDs = [10, 20], p_Pinned = False, p_PinnedPaths = [] \<rparr>"

definition exampleMap :: MapInfo where
  "exampleMap = \<lparr>
     mi_ID = 10, mi_Type = ''hash'', mi_Name = ''hash_map'', mi_KeySize = 4, mi_ValueSize = 8,
     mi_MaxEntries = 100, mi_Flags = 0, mi_MemLock = 0, mi_LoadedAt = [], mi_UID = 0,
     mi_Pinned = False, mi_PinnedPaths = [] \<rparr>"

definition exampleProgSvc :: ProgService where
  "exampleProgSvc = \<lparr>
     prog_List = Inr [exampleProgram],
     prog_Get = (\<lambda>i. if i = 7 then Inr (Some exampleProgram)
                      else Inl (ErrorString ''not found'')) \<rparr>"

definition exampleMapsSvc :: MapsService where
  "exampleMapsSvc = \<lparr>
     maps_List = Inr [exampleMap],
     maps_Get = (\<lambda>i. if i = 10 then Inr (Some exampleMap)
                      else Inl (ErrorString ''not found'')),
     maps_Dump = (\<lambda>i. Inl (ErrorString ''failed to dump map contents'')) \<rparr>"

text \<open>A program service whose \<^verbatim>\<open>List\<close> fails with a plain error.\<close>

definition failingProgSvc :: ProgService where
  "failingProgSvc = \<lparr>
     prog_List = Inl (ErrorString ''some error''),
     prog_Get = (\<lambda>i. Inl (ErrorString ''some error'')) \<rparr>"

text \<open>
  The list widget of \<^verbatim>\<open>bubbles/list\<close> has a force-quit binding of its own, \<open>ctrl+c\<close>, which
  its \<^verbatim>\<open>Update\<close> checks before anything else, in every filter state, and answers with
  \<^verbatim>\<open>tea.Quit\<close>. This is the small library with that binding.
\<close>

definition forceQuitList_Update :: "msg \<Rightarrow> simpleList \<Rightarrow> simpleList \<times> cmd option" where
  "forceQuitList_Update ev l =
     (if ev = KeyMsg ''ctrl+c'' then (l, Some Quit) else simpleList_Update ev l)"

definition forceQuitLib :: "(simpleList, string) lib" where
  "forceQuitLib = simpleLib\<lparr>list_Update := forceQuitList_Update\<rparr>"

subsection \<open>Example sessions\<close>

text \<open>Menu, program list, program detail, cursor on the associated map \<open>20\<close>, which the maps
  service does not know, confirm.\<close>

definition unknownMapSession :: "(simpleList, string) Model" where
  "unknownMapSession =
     pressKeys simpleLib [''enter'', ''enter'', ''down'', ''enter'']
       (RunWithServices simpleLib (Some exampleProgSvc) (Some exampleMapsSvc))"

text \<open>Menu, map list, map detail, dump; the dump fetch fails.\<close>

definition failedDumpSession :: "(simpleList, string) Model" where
  "failedDumpSession =
     pressKeys simpleLib [''down'', ''enter'', ''enter'', ''enter'']
       (RunWithServices simpleLib (Some exampleProgSvc) (Some exampleMapsSvc))"

text \<open>
  The program starts with a working program service; then Menu, program list with a
  failing list fetch; then the back key; then the program list again, the list fetch now
  succeeding. A service is an interface value whose \<^verbatim>\<open>List\<close> may succeed at one call and
  fail at the next; in the model that is another \<open>progSvc\<close> at the later step.
\<close>

definition failedListSession :: "(simpleList, string) Model" where
  "failedListSession =
     pressKeys simpleLib [''enter'']
       ((RunWithServices simpleLib (Some exampleProgSvc) None)
          \<lparr>progSvc := Some failingProgSvc\<rparr>)"

definition failedListBack :: "(simpleList, string) Model" where
  "failedListBack = pressKeys simpleLib [''esc''] failedListSession"

definition failedListReloaded :: "(simpleList, string) Model" where
  "failedListReloaded =
     pressKeys simpleLib [''enter''] (failedListBack\<lparr>progSvc := Some exampleProgSvc\<rparr>)"

text \<open>Menu, map list, filter entry (\<open>/\<close>), on the library with the force-quit binding.\<close>

definition filteringSession :: "(simpleList, string) Model" where
  "filteringSession =
     pressKeys forceQuitLib [''down'', ''enter'', ''/'']
       (NewModel forceQuitLib None (Some exampleMapsSvc))"

subsection \<open>Predicates used in the statements\<close>

text \<open>The cursor of the program detail view: \<open>-1\<close> without map ids, an index into them
  otherwise.\<close>

definition cursorInv :: "'v progDetailModel \<Rightarrow> bool" where
  "cursorInv m \<longleftrightarrow>
     (if pd_mapIDs m = [] then pd_cursor m = - 1
      else 0 \<le> pd_cursor m \<and> pd_cursor m < int (length (pd_mapIDs m)))"

text \<open>The shape of the history: empty at the menu; otherwise the menu at the bottom and
  nowhere else, and the current view is not the menu.\<close>

definition navInv :: "('l, 'v) Model \<Rightarrow> bool" where
  "navInv m \<longleftrightarrow>
     (if history m = [] then state m = ViewMenu
      else hd (history m) = ViewMenu \<and> ViewMenu \<notin> set (tl (history m))
           \<and> state m \<noteq> ViewMenu)"

text \<open>The menu list holds the two menu items.\<close>

definition menuInv :: "('l, 'v) lib \<Rightarrow> ('l, 'v) Model \<Rightarrow> bool" where
  "menuInv L m \<longleftrightarrow> list_Items L (menu_list (menu m)) = menuItems"

text \<open>A list that is not the current view is not filtering.\<close>

definition filterInv :: "('l, 'v) lib \<Rightarrow> ('l, 'v) Model \<Rightarrow> bool" where
  "filterInv L m \<longleftrightarrow>
     (progList_IsFiltering L (progList m) \<longrightarrow> state m = ViewProgList)
   \<and> (mapList_IsFiltering L (mapList m) \<longrightarrow> state m = ViewMapList)"

text \<open>One step of navigation from \<open>m\<close> to \<open>m'\<close>: none, forward (the view that is left is
  pushed), or backward (the top of the history becomes the current view).\<close>

definition stays :: "('l, 'v) Model \<Rightarrow> ('l, 'v) Model \<Rightarrow> bool" where
  "stays m m' \<longleftrightarrow> state m' = state m \<and> history m' = history m"

definition forward :: "('l, 'v) Model \<Rightarrow> ('l, 'v) Model \<Rightarrow> bool" where
  "forward m m' \<longleftrightarrow> history m' = history m @ [state m] \<and> state m' \<noteq> ViewMenu"

definition backward :: "('l, 'v) Model \<Rightarrow> ('l, 'v) Model \<Rightarrow> bool" where
  "backward m m' \<longleftrightarrow> history m = history m' @ [state m']"

text \<open>A list model right after an empty collection was installed in \<open>pl0\<close>, followed by the
  key presses \<open>ks\<close>.\<close>

definition emptyProgList ::
  "('l, 'v) lib \<Rightarrow> 'l progListModel \<Rightarrow> string list \<Rightarrow> 'l progListModel" where
  "emptyProgList L pl0 ks =
     foldl (\<lambda>p k. fst (progList_Update L (KeyMsg k) p)) (progList_SetPrograms L [] pl0) ks"

definition emptyMapList ::
  "('l, 'v) lib \<Rightarrow> 'l mapListModel \<Rightarrow> string list \<Rightarrow> 'l mapListModel" where
  "emptyMapList L ml0 ks =
     foldl (\<lambda>p k. fst (mapList_Update L (KeyMsg k) p)) (mapList_SetMaps L [] ml0) ks"

text \<open>The command that the widget of the current view returns for the message \<open>ev\<close>.\<close>

definition widgetCmd :: "('l, 'v) lib \<Rightarrow> msg \<Rightarrow> ('l, 'v) Model \<Rightarrow> cmd option" where
  "widgetCmd L ev m =
     (case state m of
        ViewMenu \<Rightarrow> snd (list_Update L ev (menu_list (menu m)))
      | ViewProgList \<Rightarrow> snd (list_Update L ev (pl_list (progList m)))
      | ViewProgDetail \<Rightarrow> snd (vp_Update L ev (pd_viewport (progDetail m)))
      | ViewMapList \<Rightarrow> snd (list_Update L ev (ml_list (mapList m)))
      | ViewMapDetail \<Rightarrow> snd (vp_Update L ev (md_viewport (mapDetail m)))
      | ViewMapDump \<Rightarrow> snd (vp_Update L ev (du_viewport (mapDump m))))"

section \<open>Properties of the dump view\<close>

lemma indexOf_hexdigits: "n < 16 \<Longrightarrow> indexOf (hexdigits ! n) hexdigits = Some n"
proof -
  assume "n < 16"
  then have "n \<in> {0,1,2,3,4,5,6,7,8,9,10,11,12,13,14,15}" by (simp; arith)
  then show ?thesis by (auto simp: hexdigits_def)
qed

lemma hexPair_sprintf:
  "hexPair (hexdigits ! (unat b div 16)) (hexdigits ! (unat b mod 16)) = Some b"
proof -
  have "unat b < 256" using unsigned_less [of b, where ?'a = nat] by simp
  then have h: "unat b div 16 < 16" by simp
  have l: "unat b mod 16 < 16" by simp
  have "(of_nat (16 * (unat b div 16) + unat b mod 16) :: byte) = of_nat (unat b)"
    by simp
  then show ?thesis
    by (simp add: hexPair_def indexOf_hexdigits [OF h] indexOf_hexdigits [OF l]
        del: of_nat_add of_nat_mult)
qed

lemma decodeHex_Join:
  "data \<noteq> [] \<Longrightarrow> decodeHex (Join (map sprintf_02x data) '' '') = Some data"
  by (induction data rule: induct_list012) (simp_all add: sprintf_02x_def hexPair_sprintf)

lemma length_Join:
  "data \<noteq> [] \<Longrightarrow> length (Join (map sprintf_02x data) '' '') = 3 * length data - 1"
  by (induction data rule: induct_list012) (simp_all add: sprintf_02x_def)

lemma decodeHex_empty_marker: "decodeHex ''(empty)'' = None"
  by (simp add: hexPair_def hexdigits_def)

lemma decodeHex_formatHex: "data \<noteq> [] \<Longrightarrow> decodeHex (formatHex data) = Some data"
  by (simp add: formatHex_def decodeHex_Join)

lemma formatHex_inj: "formatHex a = formatHex b \<Longrightarrow> a = b"
proof -
  assume eq: "formatHex a = formatHex b"
  define da where "da = decodeHex (formatHex a)"
  define db where "db = decodeHex (formatHex b)"
  have dec: "da = db"
    unfolding da_def db_def by (rule arg_cong [OF eq])
  have a: "a \<noteq> [] \<Longrightarrow> da = Some a" and a0: "a = [] \<Longrightarrow> da = None"
    unfolding da_def using decodeHex_formatHex [of a] decodeHex_empty_marker
    by (simp_all add: formatHex_def)
  have b: "b \<noteq> [] \<Longrightarrow> db = Some b" and b0: "b = [] \<Longrightarrow> db = None"
    unfolding db_def using decodeHex_formatHex [of b] decodeHex_empty_marker
    by (simp_all add: formatHex_def)
  show ?thesis
  proof (cases "a = []"; cases "b = []")
    assume "a = []" "b = []"
    then show ?thesis by simp
  next
    assume "a = []" "b \<noteq> []"
    with a0 b dec show ?thesis by simp
  next
    assume "a \<noteq> []" "b = []"
    with a b0 dec show ?thesis by simp
  next
    assume "a \<noteq> []" "b \<noteq> []"
    with a b dec show ?thesis by simp
  qed
qed

text \<open>
  C6. Hex round trip: a non-empty byte sequence renders as two hexadecimal characters per
  byte with one space between bytes (\<open>3 * n - 1\<close> characters: \<open>sprintf_02x\<close> joined by a
  space), and decoding the rendering gives the bytes back; the rendering is injective; the
  empty sequence renders as the marker \<open>(empty)\<close>, not as the empty string.
\<close>

theorem C6_hex_round_trip:
  "(B \<noteq> [] \<longrightarrow>
      formatHex B = Join (map sprintf_02x B) '' ''
    \<and> (\<forall>b \<in> set B. length (sprintf_02x b) = 2)
    \<and> length (formatHex B) = 3 * length B - 1
    \<and> decodeHex (formatHex B) = Some B)
   \<and> (\<forall>B'. formatHex B = formatHex B' \<longrightarrow> B = B')
   \<and> formatHex [] = ''(empty)''
   \<and> formatHex [] \<noteq> ''''"
proof -
  have a: "B \<noteq> [] \<longrightarrow> formatHex B = Join (map sprintf_02x B) '' ''"
    by (simp add: formatHex_def)
  have b: "\<forall>b \<in> set B. length (sprintf_02x b) = 2"
    by (simp add: sprintf_02x_def)
  have c: "B \<noteq> [] \<longrightarrow> length (formatHex B) = 3 * length B - 1"
    by (simp add: formatHex_def length_Join)
  have d: "B \<noteq> [] \<longrightarrow> decodeHex (formatHex B) = Some B"
    by (simp add: decodeHex_formatHex)
  have e: "\<forall>B'. formatHex B = formatHex B' \<longrightarrow> B = B'"
    using formatHex_inj by blast
  have f: "formatHex [] = ''(empty)''"
    by (simp add: formatHex_def)
  have g: "formatHex [] \<noteq> ''''"
    by (simp add: formatHex_def)
  from a b c d e f g show ?thesis by blast
qed

theorem C6_hex_round_trip_witness:
  "formatHex [0x00, 0x0a, 0xff] = ''00 0a ff''
   \<and> length (formatHex [0x00, 0x0a, 0xff]) = 8
   \<and> decodeHex ''00 0a ff'' = Some [0x00, 0x0a, 0xff]"
proof -
  have e: "formatHex [0x00, 0x0a, 0xff] = ''00 0a ff''"
    by (simp add: formatHex_def sprintf_02x_def hexdigits_def)
  have "[0x00, 0x0a, 0xff :: byte] \<noteq> []" by simp
  with C6_hex_round_trip [of "[0x00, 0x0a, 0xff]"]
  have "length (formatHex [0x00, 0x0a, 0xff]) = 3 * length [0x00, 0x0a, 0xff :: byte] - 1"
    and "decodeHex (formatHex [0x00, 0x0a, 0xff]) = Some [0x00, 0x0a, 0xff]"
    by blast+
  with e show ?thesis by simp
qed

lemma renderEntries_Cons:
  "renderEntries L n i (e # es) b =
     renderEntries L n (i + 1) es
       (b @ keyLine L e @ NL @ valueLine L e @ NL
          @ (if i < n - 1 then separatorLine L @ NL else []))"
  by (simp add: Let_def keyLine_def valueLine_def separatorLine_def)

lemma renderEntries_lines:
  "renderEntries L (i + int (length es)) i es b = b @ unlines (dumpLines L es)"
proof (induction es arbitrary: i b)
  case Nil
  then show ?case by (simp add: unlines_def)
next
  case (Cons e es)
  have n: "i + int (length (e # es)) = (i + 1) + int (length es)" by simp
  show ?case
  proof (cases es)
    case Nil
    then show ?thesis
      by (simp add: renderEntries_Cons unlines_def del: renderEntries.simps(2))
  next
    case (Cons e' es')
    then have lt: "i < i + 1 + int (length es) - 1" by simp
    show ?thesis
      unfolding n renderEntries_Cons Cons.IH
      using lt Cons by (simp add: unlines_def)
  qed
qed

text \<open>
  C7. Rendering priority of the dump view: the error if one is set; otherwise the loading
  placeholder if the loading flag is set; otherwise the no-entries message if there are no
  entries; otherwise, per entry, a key line and a value line in hex, with a separator line
  between consecutive entries and none after the last (\<open>dumpLines\<close>).
\<close>

theorem C7_dump_render_priority:
  "mapDump_renderContent L m =
     (case du_err m of
        Some e \<Rightarrow> Render L errorStyle (''Error: '' @ Error e)
      | None \<Rightarrow>
          if du_loading m then Render L dimStyle ''Loading map contents...''
          else if du_entries m = [] then Render L dimStyle ''Map contains no entries''
          else unlines (dumpLines L (du_entries m)))"
  using renderEntries_lines [of L 0 "du_entries m" "[]"]
  by (simp add: mapDump_renderContent_def split: option.split)

section \<open>Properties of the program detail view\<close>

lemma progDetail_updateViewport_fields [simp]:
  "pd_cursor (progDetail_updateViewport L m) = pd_cursor m"
  "pd_mapIDs (progDetail_updateViewport L m) = pd_mapIDs m"
  "pd_program (progDetail_updateViewport L m) = pd_program m"
  by (simp_all add: progDetail_updateViewport_def Let_def)

lemma progDetail_SetProgram_cursor:
  "pd_cursor (progDetail_SetProgram L prog m) =
     (case prog of Some p \<Rightarrow> if p_MapIDs p \<noteq> [] then 0 else - 1 | None \<Rightarrow> - 1)"
  by (simp add: progDetail_SetProgram_def Let_def split: option.split)

lemma progDetail_SetProgram_mapIDs:
  "pd_mapIDs (progDetail_SetProgram L prog m) =
     (case prog of Some p \<Rightarrow> p_MapIDs p | None \<Rightarrow> [])"
  by (simp add: progDetail_SetProgram_def Let_def split: option.split)

lemma cursorInv_SetProgram: "cursorInv (progDetail_SetProgram L prog m)"
  by (simp add: cursorInv_def progDetail_SetProgram_cursor progDetail_SetProgram_mapIDs
      split: option.split)

lemma cursorInv_Update:
  "cursorInv m \<Longrightarrow> cursorInv (fst (progDetail_Update L ev m))"
  by (cases ev)
     (auto simp: cursorInv_def progDetail_Update_def Let_def split: prod.splits if_splits)

lemma cursorInv_keys:
  "cursorInv m \<Longrightarrow> cursorInv (foldl (\<lambda>m k. fst (progDetail_Update L (KeyMsg k) m)) m ks)"
  by (induction ks arbitrary: m) (simp_all add: cursorInv_Update)

text \<open>
  C8. Cursor of the program detail view. Installing a record sets the cursor to \<open>0\<close> if
  the record has map ids and to \<open>-1\<close> (none) otherwise, also for a nil record; after any
  sequence of key presses the cursor is an index into the map ids if there are any (and
  still \<open>-1\<close> if there are none), and every message preserves this; a down press at the
  last index and an up press at index \<open>0\<close> change nothing; a confirm press without map ids
  reports nothing.
\<close>

theorem C8_cursor_invariant:
  "pd_cursor (progDetail_SetProgram L prog m0) =
     (case prog of Some p \<Rightarrow> if p_MapIDs p \<noteq> [] then 0 else - 1 | None \<Rightarrow> - 1)
   \<and> pd_mapIDs (progDetail_SetProgram L prog m0) =
     (case prog of Some p \<Rightarrow> p_MapIDs p | None \<Rightarrow> [])
   \<and> cursorInv (foldl (\<lambda>m k. fst (progDetail_Update L (KeyMsg k) m))
                  (progDetail_SetProgram L prog m0) ks)
   \<and> (cursorInv m \<longrightarrow> cursorInv (fst (progDetail_Update L ev m)))
   \<and> (pd_cursor m = int (length (pd_mapIDs m)) - 1 \<longrightarrow>
        progDetail_Update L (KeyMsg ''down'') m = (m, None, None)
      \<and> progDetail_Update L (KeyMsg ''j'') m = (m, None, None))
   \<and> (pd_cursor m = 0 \<longrightarrow>
        progDetail_Update L (KeyMsg ''up'') m = (m, None, None)
      \<and> progDetail_Update L (KeyMsg ''k'') m = (m, None, None))
   \<and> (pd_mapIDs m = [] \<longrightarrow>
        progDetail_Update L (KeyMsg ''enter'') m = (m, None, None))"
proof -
  have a: "cursorInv (foldl (\<lambda>m k. fst (progDetail_Update L (KeyMsg k) m))
                  (progDetail_SetProgram L prog m0) ks)"
    by (rule cursorInv_keys [OF cursorInv_SetProgram])
  have b: "cursorInv m \<longrightarrow> cursorInv (fst (progDetail_Update L ev m))"
    by (simp add: cursorInv_Update)
  have c: "pd_cursor m = int (length (pd_mapIDs m)) - 1 \<longrightarrow>
        progDetail_Update L (KeyMsg ''down'') m = (m, None, None)
      \<and> progDetail_Update L (KeyMsg ''j'') m = (m, None, None)"
    by (simp add: progDetail_Update_def)
  have d: "pd_cursor m = 0 \<longrightarrow>
        progDetail_Update L (KeyMsg ''up'') m = (m, None, None)
      \<and> progDetail_Update L (KeyMsg ''k'') m = (m, None, None)"
    by (simp add: progDetail_Update_def)
  have e: "pd_mapIDs m = [] \<longrightarrow>
        progDetail_Update L (KeyMsg ''enter'') m = (m, None, None)"
    by (simp add: progDetail_Update_def)
  from a b c d e progDetail_SetProgram_cursor [of L prog m0]
    progDetail_SetProgram_mapIDs [of L prog m0]
  show ?thesis by blast
qed

text \<open>The scenario of the program with the map ids \<open>10\<close> and \<open>20\<close>: the cursor starts at
  \<open>0\<close>, one down press moves it to \<open>1\<close>, a second one changes nothing, and the cursor stays
  an index after further presses.\<close>

theorem C8_cursor_invariant_witness:
  "pd_cursor (progDetail_SetProgram simpleLib (Some exampleProgram)
       (newProgDetailModel simpleLib 80 24)) = 0
   \<and> pd_cursor (fst (progDetail_Update simpleLib (KeyMsg ''down'')
       (progDetail_SetProgram simpleLib (Some exampleProgram)
          (newProgDetailModel simpleLib 80 24)))) = 1
   \<and> progDetail_Update simpleLib (KeyMsg ''down'')
       (fst (progDetail_Update simpleLib (KeyMsg ''down'')
          (progDetail_SetProgram simpleLib (Some exampleProgram)
             (newProgDetailModel simpleLib 80 24))))
     = (fst (progDetail_Update simpleLib (KeyMsg ''down'')
          (progDetail_SetProgram simpleLib (Some exampleProgram)
             (newProgDetailModel simpleLib 80 24))), None, None)
   \<and> cursorInv (foldl (\<lambda>m k. fst (progDetail_Update simpleLib (KeyMsg k) m))
        (progDetail_SetProgram simpleLib (Some exampleProgram)
           (newProgDetailModel simpleLib 80 24)) [''down'', ''down'', ''up'', ''x''])"
proof -
  define m1 where "m1 = fst (progDetail_Update simpleLib (KeyMsg ''down'')
       (progDetail_SetProgram simpleLib (Some exampleProgram)
          (newProgDetailModel simpleLib 80 24)))"
  have h: "pd_cursor m1 = int (length (pd_mapIDs m1)) - 1"
    unfolding m1_def by code_simp
  have c0: "pd_cursor (progDetail_SetProgram simpleLib (Some exampleProgram)
       (newProgDetailModel simpleLib 80 24)) = 0"
    by code_simp
  have c1: "pd_cursor m1 = 1"
    unfolding m1_def by code_simp
  from C8_cursor_invariant [of simpleLib "Some exampleProgram"
       "newProgDetailModel simpleLib 80 24" "[''down'', ''down'', ''up'', ''x'']" m1] h
  have "progDetail_Update simpleLib (KeyMsg ''down'') m1 = (m1, None, None)"
    and "cursorInv (foldl (\<lambda>m k. fst (progDetail_Update simpleLib (KeyMsg k) m))
        (progDetail_SetProgram simpleLib (Some exampleProgram)
           (newProgDetailModel simpleLib 80 24)) [''down'', ''down'', ''up'', ''x''])"
    by blast+
  with c0 c1 show ?thesis unfolding m1_def by blast
qed

section \<open>Properties of the root model\<close>

subsection \<open>What the load functions and the handlers leave alone\<close>

lemma pushState_fields [simp]:
  "state (pushState t m) = t"
  "history (pushState t m) = history m @ [state m]"
  "keys (pushState t m) = keys m"
  "showHelp (pushState t m) = showHelp m"
  "err (pushState t m) = err m"
  "progSvc (pushState t m) = progSvc m"
  "mapsSvc (pushState t m) = mapsSvc m"
  "menu (pushState t m) = menu m"
  "progList (pushState t m) = progList m"
  "progDetail (pushState t m) = progDetail m"
  "mapList (pushState t m) = mapList m"
  "mapDetail (pushState t m) = mapDetail m"
  "mapDump (pushState t m) = mapDump m"
  by (simp_all add: pushState_def)

lemma loadPrograms_fields [simp]:
  "state (loadPrograms L m) = state m"
  "history (loadPrograms L m) = history m"
  "keys (loadPrograms L m) = keys m"
  "showHelp (loadPrograms L m) = showHelp m"
  "err (loadPrograms L m) = err m"
  "menu (loadPrograms L m) = menu m"
  "progDetail (loadPrograms L m) = progDetail m"
  "mapList (loadPrograms L m) = mapList m"
  "mapDetail (loadPrograms L m) = mapDetail m"
  "mapDump (loadPrograms L m) = mapDump m"
  by (simp_all add: loadPrograms_def Let_def split: option.split sum.split)

lemma loadMaps_fields [simp]:
  "state (loadMaps L m) = state m"
  "history (loadMaps L m) = history m"
  "keys (loadMaps L m) = keys m"
  "showHelp (loadMaps L m) = showHelp m"
  "err (loadMaps L m) = err m"
  "menu (loadMaps L m) = menu m"
  "progList (loadMaps L m) = progList m"
  "progDetail (loadMaps L m) = progDetail m"
  "mapDetail (loadMaps L m) = mapDetail m"
  "mapDump (loadMaps L m) = mapDump m"
  by (simp_all add: loadMaps_def Let_def split: option.split sum.split)

lemma loadMapByID_fields [simp]:
  "state (loadMapByID L i m) = state m"
  "history (loadMapByID L i m) = history m"
  "keys (loadMapByID L i m) = keys m"
  "showHelp (loadMapByID L i m) = showHelp m"
  "menu (loadMapByID L i m) = menu m"
  "progList (loadMapByID L i m) = progList m"
  "progDetail (loadMapByID L i m) = progDetail m"
  "mapList (loadMapByID L i m) = mapList m"
  "mapDump (loadMapByID L i m) = mapDump m"
  by (simp_all add: loadMapByID_def split: option.split sum.split)

lemma loadMapDump_fields [simp]:
  "state (loadMapDump L i m) = state m"
  "history (loadMapDump L i m) = history m"
  "keys (loadMapDump L i m) = keys m"
  "showHelp (loadMapDump L i m) = showHelp m"
  "err (loadMapDump L i m) = err m"
  "menu (loadMapDump L i m) = menu m"
  "progList (loadMapDump L i m) = progList m"
  "progDetail (loadMapDump L i m) = progDetail m"
  "mapList (loadMapDump L i m) = mapList m"
  "mapDetail (loadMapDump L i m) = mapDetail m"
  by (simp_all add: loadMapDump_def Let_def split: option.split sum.split)

lemma mapDump_updateViewport_err [simp]:
  "du_err (mapDump_updateViewport L d) = du_err d"
  by (simp add: mapDump_updateViewport_def Let_def)

lemma mapDump_SetError_err [simp]: "du_err (mapDump_SetError L e d) = Some e"
  by (simp add: mapDump_SetError_def)

lemma mapDump_SetMapDump_err [simp]: "du_err (mapDump_SetMapDump L i n es d) = None"
  by (simp add: mapDump_SetMapDump_def)

subsection \<open>The startup probe\<close>

lemma checkPermissions_NewModel:
  "checkPermissions (NewModel L ps ms) =
     (case ps of
        None \<Rightarrow> None
      | Some svc \<Rightarrow>
         (case prog_List svc of
            Inl e \<Rightarrow> Some (if IsPermissionError (Some e) then e else PermissionError (Some e))
          | Inr programs \<Rightarrow> None))"
  by (simp add: checkPermissions_def NewModel_def split: option.split sum.split)

lemma err_RunWithServices:
  "err (RunWithServices L ps ms) = checkPermissions (NewModel L ps ms)"
  by (simp add: RunWithServices_def Let_def NewModel_def split: option.split)

text \<open>
  C4 as stated fails: a probe failure that is not a permission error (a plain
  \<open>''some error''\<close>) is wrapped into a permission error and takes the full-screen error
  path all the same.
\<close>

theorem C4_counterexample:
  "prog_List failingProgSvc = Inl (ErrorString ''some error'')
   \<and> \<not> IsPermissionError (Some (ErrorString ''some error''))
   \<and> err (RunWithServices simpleLib (Some failingProgSvc) None)
       = Some (PermissionError (Some (ErrorString ''some error'')))
   \<and> View simpleLib (RunWithServices simpleLib (Some failingProgSvc) None)
       = renderError simpleLib (RunWithServices simpleLib (Some failingProgSvc) None)"
  by (simp add: err_RunWithServices checkPermissions_NewModel failingProgSvc_def View_def)

text \<open>
  C4, amended. Every failure of the startup probe takes the top-level (full-screen) error
  path: a failure that is a permission error is stored as it is, any other failure is
  wrapped into a permission error and stored. The top-level error stays unset only when
  the probe succeeds or no program service is configured.
\<close>

theorem C4_probe_failure_is_fatal:
  "(ps = Some svc \<and> prog_List svc = Inl e \<longrightarrow>
      err (RunWithServices L ps ms)
        = Some (if IsPermissionError (Some e) then e else PermissionError (Some e))
    \<and> IsPermissionError (err (RunWithServices L ps ms))
    \<and> View L (RunWithServices L ps ms) = renderError L (RunWithServices L ps ms))
   \<and> (ps = None \<or> (ps = Some svc \<and> prog_List svc = Inr programs) \<longrightarrow>
      err (RunWithServices L ps ms) = None)"
proof -
  have a: "ps = Some svc \<and> prog_List svc = Inl e \<longrightarrow>
      err (RunWithServices L ps ms)
        = Some (if IsPermissionError (Some e) then e else PermissionError (Some e))"
    by (simp add: err_RunWithServices checkPermissions_NewModel)
  then have b: "ps = Some svc \<and> prog_List svc = Inl e \<longrightarrow>
      IsPermissionError (err (RunWithServices L ps ms))"
    by simp
  from a have c: "ps = Some svc \<and> prog_List svc = Inl e \<longrightarrow>
      View L (RunWithServices L ps ms) = renderError L (RunWithServices L ps ms)"
    by (simp add: View_def)
  have d: "ps = None \<or> (ps = Some svc \<and> prog_List svc = Inr programs) \<longrightarrow>
      err (RunWithServices L ps ms) = None"
    by (auto simp: err_RunWithServices checkPermissions_NewModel)
  from a b c d show ?thesis by blast
qed

theorem C4_probe_failure_is_fatal_witness:
  "err (RunWithServices simpleLib (Some failingProgSvc) (Some exampleMapsSvc))
     = Some (PermissionError (Some (ErrorString ''some error'')))
   \<and> err (RunWithServices simpleLib (Some exampleProgSvc) (Some exampleMapsSvc)) = None"
proof -
  have f: "Some failingProgSvc = Some failingProgSvc
           \<and> prog_List failingProgSvc = Inl (ErrorString ''some error'')"
    by (simp add: failingProgSvc_def)
  have g: "Some exampleProgSvc = None
           \<or> (Some exampleProgSvc = Some exampleProgSvc
              \<and> prog_List exampleProgSvc = Inr [exampleProgram])"
    by (simp add: exampleProgSvc_def)
  from f C4_probe_failure_is_fatal [where ps = "Some failingProgSvc"
      and svc = failingProgSvc and e = "ErrorString ''some error''" and L = simpleLib
      and ms = "Some exampleMapsSvc"]
  have "err (RunWithServices simpleLib (Some failingProgSvc) (Some exampleMapsSvc))
     = Some (PermissionError (Some (ErrorString ''some error'')))"
    by simp
  moreover from g C4_probe_failure_is_fatal [where ps = "Some exampleProgSvc"
      and svc = exampleProgSvc and programs = "[exampleProgram]" and L = simpleLib
      and ms = "Some exampleMapsSvc"]
  have "err (RunWithServices simpleLib (Some exampleProgSvc) (Some exampleMapsSvc)) = None"
    by blast
  ultimately show ?thesis by blast
qed

subsection \<open>Where a fetch failure is stored\<close>

lemma handleMenuKeys_progs_fail:
  assumes "menu_Update L (KeyMsg k) (menu m) = (mn, c, Some ViewProgList)"
    and "progSvc m = Some ps" and "prog_List ps = Inl e"
  shows "state (fst (handleMenuKeys L k m)) = ViewProgList
       \<and> pl_err (progList (fst (handleMenuKeys L k m))) = Some e
       \<and> err (fst (handleMenuKeys L k m)) = err m"
  using assms
  by (simp add: handleMenuKeys_def Let_def loadPrograms_def progList_SetError_def
      progList_ResetFilter_def pushState_def)

lemma handleMenuKeys_maps_fail:
  assumes "menu_Update L (KeyMsg k) (menu m) = (mn, c, Some ViewMapList)"
    and "mapsSvc m = Some ms" and "maps_List ms = Inl e"
  shows "state (fst (handleMenuKeys L k m)) = ViewMapList
       \<and> ml_err (mapList (fst (handleMenuKeys L k m))) = Some e
       \<and> err (fst (handleMenuKeys L k m)) = err m"
  using assms
  by (simp add: handleMenuKeys_def Let_def loadMaps_def mapList_SetError_def
      mapList_ResetFilter_def pushState_def)

lemma handleMapDetailKeys_dump_fail:
  assumes "mapDetail_Update L (KeyMsg k) (mapDetail m) = (md, c, True)"
    and "mapsSvc m = Some ms" and "maps_Dump ms (mapDetail_GetMapID md) = Inl e"
  shows "state (fst (handleMapDetailKeys L k m)) = ViewMapDump
       \<and> du_err (mapDump (fst (handleMapDetailKeys L k m))) = Some e
       \<and> err (fst (handleMapDetailKeys L k m)) = err m
       \<and> mapDetail (fst (handleMapDetailKeys L k m)) = md"
  using assms
  by (simp add: handleMapDetailKeys_def Let_def loadMapDump_def pushState_def)

lemma handleProgDetailKeys_get_fail:
  assumes "progDetail_Update L (KeyMsg k) (progDetail m) = (pd, c, Some i)"
    and "mapsSvc m = Some ms" and "maps_Get ms i = Inl e"
  shows "state (fst (handleProgDetailKeys L k m)) = ViewMapDetail
       \<and> err (fst (handleProgDetailKeys L k m)) = Some e
       \<and> mapDetail (fst (handleProgDetailKeys L k m)) = mapDetail m"
  using assms
  by (simp add: handleProgDetailKeys_def Let_def loadMapByID_def pushState_def)

lemma View_progList_error:
  "err m = None \<Longrightarrow> \<not> showHelp m \<Longrightarrow> state m = ViewProgList \<Longrightarrow> pl_err (progList m) = Some e \<Longrightarrow>
   View L m = Render L titleStyle ''BPF Programs'' @ NL @ NL
                @ Render L errorStyle (''Error: '' @ Error e) @ NL @ renderHelpBar L m"
  by (simp add: View_def progList_View_def)

lemma View_mapList_error:
  "err m = None \<Longrightarrow> \<not> showHelp m \<Longrightarrow> state m = ViewMapList \<Longrightarrow> ml_err (mapList m) = Some e \<Longrightarrow>
   View L m = Render L titleStyle ''BPF Maps'' @ NL @ NL
                @ Render L errorStyle (''Error: '' @ Error e) @ NL @ renderHelpBar L m"
  by (simp add: View_def mapList_View_def)

text \<open>
  C2. After startup a fetch failure on entering a view is to be stored as the error of
  that view's sub-model and shown inside the view, not as the top-level error. The code at
  the failing input, the session Menu, program list, program detail with the cursor on the
  associated map \<open>20\<close> that the maps service does not know, confirm: the map detail view is
  entered, the failure of \<^verbatim>\<open>Get\<close> is stored as the top-level error, the map detail sub-model
  is still the new one, and the whole screen shows the error. In the same run of the
  program the failing dump fetch is stored in the dump sub-model and leaves the top-level
  error unset, as the list fetches do (\<open>handleMenuKeys_progs_fail\<close>,
  \<open>handleMenuKeys_maps_fail\<close>, \<open>handleMapDetailKeys_dump_fail\<close>).
\<close>

theorem C2_get_failure_stored_top_level:
  "state unknownMapSession = ViewMapDetail
   \<and> err unknownMapSession = Some (ErrorString ''not found'')
   \<and> mapDetail unknownMapSession = newMapDetailModel simpleLib 80 24
   \<and> View simpleLib unknownMapSession = renderError simpleLib unknownMapSession
   \<and> state failedDumpSession = ViewMapDump
   \<and> du_err (mapDump failedDumpSession) = Some (ErrorString ''failed to dump map contents'')
   \<and> err failedDumpSession = None"
proof -
  have e: "err unknownMapSession = Some (ErrorString ''not found'')"
    unfolding unknownMapSession_def by code_simp
  have s: "state unknownMapSession = ViewMapDetail"
    unfolding unknownMapSession_def by code_simp
  have d: "mapDetail unknownMapSession = newMapDetailModel simpleLib 80 24"
    unfolding unknownMapSession_def by code_simp
  have f: "state failedDumpSession = ViewMapDump
     \<and> du_err (mapDump failedDumpSession) = Some (ErrorString ''failed to dump map contents'')
     \<and> err failedDumpSession = None"
    unfolding failedDumpSession_def by code_simp
  from e have "View simpleLib unknownMapSession = renderError simpleLib unknownMapSession"
    by (simp add: View_def)
  with e s d f show ?thesis by blast
qed

subsection \<open>Backward navigation and errors\<close>

lemma back_pops:
  assumes "Matches k (k_Back (keys m))" "\<not> Matches k (k_Quit (keys m))"
    "\<not> Matches k (k_Help (keys m))" "\<not> showHelp m" "notFiltering L m"
    "state m \<noteq> ViewMenu" "history m \<noteq> []"
  shows "Update L (KeyMsg k) m
           = (m\<lparr>history := butlast (history m), state := last (history m), err := None\<rparr>, None)"
proof -
  have f: "\<not> (state m = ViewProgList \<and> progList_IsFiltering L (progList m))"
    "\<not> (state m = ViewMapList \<and> mapList_IsFiltering L (mapList m))"
    using assms(5) by (auto simp: notFiltering_def split: if_splits)
  have p: "popState m = (last (history m), m\<lparr>history := butlast (history m)\<rparr>)"
    using assms(7) by (simp add: popState_def Let_def last_conv_nth butlast_conv_take)
  show ?thesis
    using assms(1-4,6) f by (auto simp add: Update_def handleKeyMsg_def p)
qed

lemma back_keeps_sub_models:
  assumes "Matches k (k_Back (keys m))" "\<not> Matches k (k_Quit (keys m))"
    "\<not> Matches k (k_Help (keys m))" "\<not> showHelp m" "notFiltering L m"
    "state m \<noteq> ViewMenu" "history m \<noteq> []"
  shows "err (fst (Update L (KeyMsg k) m)) = None"
    and "progList (fst (Update L (KeyMsg k) m)) = progList m"
    and "mapList (fst (Update L (KeyMsg k) m)) = mapList m"
    and "mapDump (fst (Update L (KeyMsg k) m)) = mapDump m"
  by (simp_all add: back_pops [OF assms])

lemma progList_SetPrograms_err: "pl_err (progList_SetPrograms L programs pl) = pl_err pl"
  by (simp add: progList_SetPrograms_def Let_def)

lemma mapList_SetMaps_err: "ml_err (mapList_SetMaps L maps ml) = ml_err ml"
  by (simp add: mapList_SetMaps_def Let_def)

text \<open>
  C3. A back-key press that navigates out of a view is to clear the fetch error stored in
  that view. The code at the failing input, the session Menu, program list (the list fetch
  fails), back, program list again (the list fetch succeeds), started with a working
  program service: the back press returns to
  the menu and leaves the error in the program list sub-model; after the successful reload
  the programs are installed, the error is still stored, and the view shows the error in
  place of the list. Likewise the back press out of the failed dump view returns to the
  map detail view and leaves the error in the dump sub-model. The back handler clears the
  top-level error only (\<open>back_keeps_sub_models\<close>), and \<^verbatim>\<open>SetPrograms\<close> and \<^verbatim>\<open>SetMaps\<close> do not
  reset the list error (\<open>progList_SetPrograms_err\<close>, \<open>mapList_SetMaps_err\<close>).
\<close>

theorem C3_view_error_survives_back:
  "state failedListSession = ViewProgList
   \<and> pl_err (progList failedListSession) = Some (ErrorString ''some error'')
   \<and> state failedListBack = ViewMenu
   \<and> pl_err (progList failedListBack) = Some (ErrorString ''some error'')
   \<and> state failedListReloaded = ViewProgList
   \<and> pl_programs (progList failedListReloaded) = [exampleProgram]
   \<and> pl_err (progList failedListReloaded) = Some (ErrorString ''some error'')
   \<and> progList_View simpleLib (progList failedListReloaded)
       = ''BPF Programs'' @ NL @ NL @ ''Error: some error''
   \<and> state failedDumpSession = ViewMapDump
   \<and> du_err (mapDump failedDumpSession) = Some (ErrorString ''failed to dump map contents'')
   \<and> state (pressKeys simpleLib [''esc''] failedDumpSession) = ViewMapDetail
   \<and> du_err (mapDump (pressKeys simpleLib [''esc''] failedDumpSession))
       = Some (ErrorString ''failed to dump map contents'')"
proof -
  have a: "state failedListSession = ViewProgList
     \<and> pl_err (progList failedListSession) = Some (ErrorString ''some error'')"
    unfolding failedListSession_def by code_simp
  have b: "state failedListBack = ViewMenu
     \<and> pl_err (progList failedListBack) = Some (ErrorString ''some error'')"
    unfolding failedListBack_def failedListSession_def by code_simp
  have c: "state failedListReloaded = ViewProgList
     \<and> pl_programs (progList failedListReloaded) = [exampleProgram]
     \<and> pl_err (progList failedListReloaded) = Some (ErrorString ''some error'')"
    unfolding failedListReloaded_def failedListBack_def failedListSession_def by code_simp
  then have v: "progList_View simpleLib (progList failedListReloaded)
       = ''BPF Programs'' @ NL @ NL @ ''Error: some error''"
    by (simp add: progList_View_def simpleLib_def)
  have d: "state failedDumpSession = ViewMapDump
     \<and> du_err (mapDump failedDumpSession) = Some (ErrorString ''failed to dump map contents'')
     \<and> state (pressKeys simpleLib [''esc''] failedDumpSession) = ViewMapDetail
     \<and> du_err (mapDump (pressKeys simpleLib [''esc''] failedDumpSession))
         = Some (ErrorString ''failed to dump map contents'')"
    unfolding failedDumpSession_def by code_simp
  from a b c v d show ?thesis by blast
qed

subsection \<open>Navigation steps\<close>

lemma keeps_selected:
  "list_keeps_items L \<Longrightarrow> list_SelectedItem L l = Some i \<Longrightarrow> i \<in> set (list_Items L l)"
  by (simp add: list_keeps_items_def)

lemma keeps_Update:
  "list_keeps_items L \<Longrightarrow> list_Items L (fst (list_Update L ev l)) = list_Items L l"
  by (simp add: list_keeps_items_def)

lemma menu_Update_target:
  assumes "list_keeps_items L" "list_Items L (menu_list mn) = menuItems"
    and "menu_Update L ev mn = (mn', c, Some t)"
  shows "t = ViewProgList \<or> t = ViewMapList"
proof -
  from assms(3) obtain k item where
    "list_SelectedItem L (menu_list mn) = Some (MenuItem item)" "t = target item"
    by (auto simp: menu_Update_def Let_def split: msg.splits if_splits option.splits
        Item.splits prod.splits)
  moreover from this assms(1,2) have "MenuItem item \<in> set menuItems"
    using keeps_selected [of L "menu_list mn" "MenuItem item"] by simp
  ultimately show ?thesis by (auto simp: menuItems_def)
qed

lemma menu_Update_items:
  assumes "list_keeps_items L" "menu_Update L ev mn = (mn', c, t)"
  shows "list_Items L (menu_list mn') = list_Items L (menu_list mn)"
proof -
  have "list_Items L (fst (list_Update L ev (menu_list mn))) = list_Items L (menu_list mn)"
    using assms(1) by (rule keeps_Update)
  with assms(2) show ?thesis
    by (auto simp: menu_Update_def Let_def split: msg.splits if_splits option.splits
        Item.splits prod.splits)
qed

lemma handleMenuKeys_step:
  assumes "list_keeps_items L" "menuInv L m"
  shows "stays m (fst (handleMenuKeys L k m))
       \<or> (forward m (fst (handleMenuKeys L k m))
          \<and> state (fst (handleMenuKeys L k m)) \<in> {ViewProgList, ViewMapList})"
proof -
  obtain mn c t where u: "menu_Update L (KeyMsg k) (menu m) = (mn, c, t)"
    by (cases "menu_Update L (KeyMsg k) (menu m)") auto
  show ?thesis
  proof (cases t)
    case None
    with u show ?thesis by (simp add: handleMenuKeys_def stays_def)
  next
    case (Some v)
    with u assms have "v = ViewProgList \<or> v = ViewMapList"
      using menu_Update_target [of L "menu m" "KeyMsg k" mn c v] by (simp add: menuInv_def)
    with u Some show ?thesis
      by (auto simp: handleMenuKeys_def forward_def Let_def)
  qed
qed

lemma handleMenuKeys_fields:
  "keys (fst (handleMenuKeys L k m)) = keys m"
  "showHelp (fst (handleMenuKeys L k m)) = showHelp m"
  by (auto simp: handleMenuKeys_def Let_def split: prod.splits option.splits ViewState.splits)

lemma handleMenuKeys_menuInv:
  assumes "list_keeps_items L" "menuInv L m"
  shows "menuInv L (fst (handleMenuKeys L k m))"
proof -
  obtain mn c t where u: "menu_Update L (KeyMsg k) (menu m) = (mn, c, t)"
    by (cases "menu_Update L (KeyMsg k) (menu m)") auto
  from menu_Update_items [OF assms(1) u] assms(2)
  have "list_Items L (menu_list mn) = menuItems" by (simp add: menuInv_def)
  with u show ?thesis
    by (auto simp: handleMenuKeys_def Let_def menuInv_def split: option.splits ViewState.splits)
qed

lemma progList_Update_selected:
  "progList_Update L ev pl = (pl', c, Some p) \<Longrightarrow>
   pl' = pl \<and> c = None \<and> \<not> progList_IsFiltering L pl"
  by (auto simp: progList_Update_def progList_IsFiltering_def Let_def
      split: msg.splits if_splits option.splits Item.splits prod.splits)

lemma mapList_Update_selected:
  "mapList_Update L ev ml = (ml', c, Some p) \<Longrightarrow>
   ml' = ml \<and> c = None \<and> \<not> mapList_IsFiltering L ml"
  by (auto simp: mapList_Update_def mapList_IsFiltering_def Let_def
      split: msg.splits if_splits option.splits Item.splits prod.splits)

lemma handleProgListKeys_step:
  "(stays m (fst (handleProgListKeys L k m))
      \<and> mapList (fst (handleProgListKeys L k m)) = mapList m)
   \<or> (history (fst (handleProgListKeys L k m)) = history m @ [state m]
      \<and> state (fst (handleProgListKeys L k m)) = ViewProgDetail
      \<and> progList (fst (handleProgListKeys L k m)) = progList m
      \<and> mapList (fst (handleProgListKeys L k m)) = mapList m
      \<and> \<not> progList_IsFiltering L (progList m))"
proof -
  obtain pl c sel where u: "progList_Update L (KeyMsg k) (progList m) = (pl, c, sel)"
    by (cases "progList_Update L (KeyMsg k) (progList m)") auto
  show ?thesis
  proof (cases sel)
    case None
    with u show ?thesis by (simp add: handleProgListKeys_def stays_def)
  next
    case (Some p)
    with u progList_Update_selected [of L "KeyMsg k" "progList m" pl c p]
    show ?thesis by (simp add: handleProgListKeys_def Let_def)
  qed
qed

lemma handleMapListKeys_step:
  "(stays m (fst (handleMapListKeys L k m))
      \<and> progList (fst (handleMapListKeys L k m)) = progList m)
   \<or> (history (fst (handleMapListKeys L k m)) = history m @ [state m]
      \<and> state (fst (handleMapListKeys L k m)) = ViewMapDetail
      \<and> progList (fst (handleMapListKeys L k m)) = progList m
      \<and> mapList (fst (handleMapListKeys L k m)) = mapList m
      \<and> \<not> mapList_IsFiltering L (mapList m))"
proof -
  obtain ml c sel where u: "mapList_Update L (KeyMsg k) (mapList m) = (ml, c, sel)"
    by (cases "mapList_Update L (KeyMsg k) (mapList m)") auto
  show ?thesis
  proof (cases sel)
    case None
    with u show ?thesis by (simp add: handleMapListKeys_def stays_def)
  next
    case (Some p)
    with u mapList_Update_selected [of L "KeyMsg k" "mapList m" ml c p]
    show ?thesis by (simp add: handleMapListKeys_def Let_def)
  qed
qed

lemma handleProgDetailKeys_step:
  "(stays m (fst (handleProgDetailKeys L k m))
    \<or> (history (fst (handleProgDetailKeys L k m)) = history m @ [state m]
       \<and> state (fst (handleProgDetailKeys L k m)) = ViewMapDetail))
   \<and> progList (fst (handleProgDetailKeys L k m)) = progList m
   \<and> mapList (fst (handleProgDetailKeys L k m)) = mapList m"
  by (auto simp: handleProgDetailKeys_def Let_def stays_def split: prod.splits option.splits)

lemma handleMapDetailKeys_step:
  "(stays m (fst (handleMapDetailKeys L k m))
    \<or> (history (fst (handleMapDetailKeys L k m)) = history m @ [state m]
       \<and> state (fst (handleMapDetailKeys L k m)) = ViewMapDump))
   \<and> progList (fst (handleMapDetailKeys L k m)) = progList m
   \<and> mapList (fst (handleMapDetailKeys L k m)) = mapList m"
  by (auto simp: handleMapDetailKeys_def Let_def stays_def split: prod.splits)

lemma handleMapDumpKeys_step:
  "stays m (fst (handleMapDumpKeys L k m))
   \<and> progList (fst (handleMapDumpKeys L k m)) = progList m
   \<and> mapList (fst (handleMapDumpKeys L k m)) = mapList m"
  by (auto simp: handleMapDumpKeys_def Let_def stays_def split: prod.splits)

lemma handlers_fields:
  "keys (fst (handleProgListKeys L k m)) = keys m"
  "showHelp (fst (handleProgListKeys L k m)) = showHelp m"
  "menu (fst (handleProgListKeys L k m)) = menu m"
  "keys (fst (handleMapListKeys L k m)) = keys m"
  "showHelp (fst (handleMapListKeys L k m)) = showHelp m"
  "menu (fst (handleMapListKeys L k m)) = menu m"
  "keys (fst (handleProgDetailKeys L k m)) = keys m"
  "showHelp (fst (handleProgDetailKeys L k m)) = showHelp m"
  "menu (fst (handleProgDetailKeys L k m)) = menu m"
  "keys (fst (handleMapDetailKeys L k m)) = keys m"
  "showHelp (fst (handleMapDetailKeys L k m)) = showHelp m"
  "menu (fst (handleMapDetailKeys L k m)) = menu m"
  "keys (fst (handleMapDumpKeys L k m)) = keys m"
  "showHelp (fst (handleMapDumpKeys L k m)) = showHelp m"
  "menu (fst (handleMapDumpKeys L k m)) = menu m"
  by (auto simp: handleProgListKeys_def handleMapListKeys_def handleProgDetailKeys_def
      handleMapDetailKeys_def handleMapDumpKeys_def Let_def split: prod.splits option.splits)

subsection \<open>The branches of the key handler\<close>

lemma handleKeyMsg_cases:
  "(Matches k (k_Quit (keys m)) \<and> notFiltering L m \<and> handleKeyMsg L k m = (m, Some Quit))
   \<or> (\<not> (Matches k (k_Quit (keys m)) \<and> notFiltering L m)
       \<and> (handleKeyMsg L k m = (m\<lparr>showHelp := \<not> showHelp m\<rparr>, None)
          \<or> handleKeyMsg L k m = (m\<lparr>showHelp := False\<rparr>, None)
          \<or> (state m \<noteq> ViewMenu \<and> notFiltering L m \<and> \<not> showHelp m
              \<and> handleKeyMsg L k m
                  = ((snd (popState m))\<lparr>state := fst (popState m), err := None\<rparr>, None))
          \<or> handleKeyMsg L k m = (m, None)
          \<or> (state m = ViewMenu \<and> handleKeyMsg L k m = handleMenuKeys L k m)
          \<or> (state m = ViewProgList \<and> handleKeyMsg L k m = handleProgListKeys L k m)
          \<or> (state m = ViewProgDetail \<and> handleKeyMsg L k m = handleProgDetailKeys L k m)
          \<or> (state m = ViewMapList \<and> handleKeyMsg L k m = handleMapListKeys L k m)
          \<or> (state m = ViewMapDetail \<and> handleKeyMsg L k m = handleMapDetailKeys L k m)
          \<or> (state m = ViewMapDump \<and> handleKeyMsg L k m = handleMapDumpKeys L k m)))"
  by (cases "state m")
     (auto simp: handleKeyMsg_def notFiltering_def split: prod.splits)

lemma popState_eq:
  "popState m =
     (if history m = [] then (ViewMenu, m)
      else (last (history m), m\<lparr>history := butlast (history m)\<rparr>))"
  by (simp add: popState_def Let_def last_conv_nth butlast_conv_take)

subsection \<open>The shape of the history is invariant\<close>

lemma navInv_stays: "stays m m' \<Longrightarrow> navInv m \<Longrightarrow> navInv m'"
  by (simp add: stays_def navInv_def)

lemma navInv_forward: "forward m m' \<Longrightarrow> navInv m \<Longrightarrow> navInv m'"
  by (cases "history m") (auto simp: forward_def navInv_def split: if_splits)

lemma navInv_nonempty: "navInv m \<Longrightarrow> state m \<noteq> ViewMenu \<Longrightarrow> history m \<noteq> []"
  by (auto simp: navInv_def)

lemma navInv_empty: "navInv m \<Longrightarrow> (history m = [] \<longleftrightarrow> state m = ViewMenu)"
  by (auto simp: navInv_def split: if_splits)

lemma navInv_pop:
  assumes "navInv m" "state m \<noteq> ViewMenu"
  shows "navInv ((snd (popState m))\<lparr>state := fst (popState m), err := None\<rparr>)"
proof -
  from assms obtain vs where h: "history m = ViewMenu # vs" "ViewMenu \<notin> set vs"
    by (cases "history m") (auto simp: navInv_def split: if_splits)
  show ?thesis
  proof (cases "vs = []")
    case True
    with h show ?thesis by (simp add: popState_eq navInv_def)
  next
    case False
    then have "last vs \<noteq> ViewMenu" "ViewMenu \<notin> set (butlast vs)"
      using h(2) by (metis last_in_set, metis in_set_butlastD)
    with h False show ?thesis
      by (simp add: popState_eq navInv_def)
  qed
qed

lemma navInv_showHelp [simp]: "navInv (m\<lparr>showHelp := b\<rparr>) = navInv m"
  by (simp add: navInv_def)

lemma menuInv_showHelp [simp]: "menuInv L (m\<lparr>showHelp := b\<rparr>) = menuInv L m"
  by (simp add: menuInv_def)

lemma menu_popState [simp]: "menu (snd (popState m)) = menu m"
  by (simp add: popState_eq)

lemma forward_from_push:
  "history m' = history m @ [state m] \<Longrightarrow> state m' \<noteq> ViewMenu \<Longrightarrow> forward m m'"
  by (simp add: forward_def)

lemma navInv_push:
  "navInv m \<Longrightarrow> history m' = history m @ [state m] \<Longrightarrow> state m' \<noteq> ViewMenu \<Longrightarrow> navInv m'"
  by (cases "history m") (auto simp: navInv_def split: if_splits)

lemma handleKeyMsg_rule:
  assumes "P m"
    and "\<And>b. P (m\<lparr>showHelp := b\<rparr>)"
    and "state m \<noteq> ViewMenu \<Longrightarrow> notFiltering L m \<Longrightarrow> \<not> showHelp m \<Longrightarrow>
           P ((snd (popState m))\<lparr>state := fst (popState m), err := None\<rparr>)"
    and "state m = ViewMenu \<Longrightarrow> P (fst (handleMenuKeys L k m))"
    and "state m = ViewProgList \<Longrightarrow> P (fst (handleProgListKeys L k m))"
    and "state m = ViewProgDetail \<Longrightarrow> P (fst (handleProgDetailKeys L k m))"
    and "state m = ViewMapList \<Longrightarrow> P (fst (handleMapListKeys L k m))"
    and "state m = ViewMapDetail \<Longrightarrow> P (fst (handleMapDetailKeys L k m))"
    and "state m = ViewMapDump \<Longrightarrow> P (fst (handleMapDumpKeys L k m))"
  shows "P (fst (handleKeyMsg L k m))"
proof -
  from handleKeyMsg_cases [of k m L]
  show ?thesis
  proof (elim disjE conjE)
    assume "handleKeyMsg L k m = (m, Some Quit)"
    with assms(1) show ?thesis by simp
  next
    assume "handleKeyMsg L k m = (m\<lparr>showHelp := \<not> showHelp m\<rparr>, None)"
    with assms(2) show ?thesis by simp
  next
    assume "handleKeyMsg L k m = (m\<lparr>showHelp := False\<rparr>, None)"
    with assms(2) show ?thesis by simp
  next
    assume "state m \<noteq> ViewMenu" "notFiltering L m" "\<not> showHelp m"
      "handleKeyMsg L k m = ((snd (popState m))\<lparr>state := fst (popState m), err := None\<rparr>, None)"
    with assms(3) show ?thesis by simp
  next
    assume "handleKeyMsg L k m = (m, None)"
    with assms(1) show ?thesis by simp
  next
    assume "state m = ViewMenu" "handleKeyMsg L k m = handleMenuKeys L k m"
    with assms(4) show ?thesis by simp
  next
    assume "state m = ViewProgList" "handleKeyMsg L k m = handleProgListKeys L k m"
    with assms(5) show ?thesis by simp
  next
    assume "state m = ViewProgDetail" "handleKeyMsg L k m = handleProgDetailKeys L k m"
    with assms(6) show ?thesis by simp
  next
    assume "state m = ViewMapList" "handleKeyMsg L k m = handleMapListKeys L k m"
    with assms(7) show ?thesis by simp
  next
    assume "state m = ViewMapDetail" "handleKeyMsg L k m = handleMapDetailKeys L k m"
    with assms(8) show ?thesis by simp
  next
    assume "state m = ViewMapDump" "handleKeyMsg L k m = handleMapDumpKeys L k m"
    with assms(9) show ?thesis by simp
  qed
qed

lemma handleKeyMsg_inv:
  assumes k: "list_keeps_items L" and n: "navInv m" and i: "menuInv L m"
  shows "navInv (fst (handleKeyMsg L k m)) \<and> menuInv L (fst (handleKeyMsg L k m))"
proof (rule handleKeyMsg_rule)
  show "navInv m \<and> menuInv L m" using n i by simp
  show "navInv (m\<lparr>showHelp := b\<rparr>) \<and> menuInv L (m\<lparr>showHelp := b\<rparr>)" for b
    using n i by simp
  show "navInv ((snd (popState m))\<lparr>state := fst (popState m), err := None\<rparr>)
      \<and> menuInv L ((snd (popState m))\<lparr>state := fst (popState m), err := None\<rparr>)"
    if "state m \<noteq> ViewMenu"
    using that n i navInv_pop [of m] by (simp add: menuInv_def)
  show "navInv (fst (handleMenuKeys L k m)) \<and> menuInv L (fst (handleMenuKeys L k m))"
    using handleMenuKeys_step [OF k i, of k] handleMenuKeys_menuInv [OF k i, of k] n
    by (auto intro: navInv_stays navInv_forward)
  show "navInv (fst (handleProgListKeys L k m)) \<and> menuInv L (fst (handleProgListKeys L k m))"
    if "state m = ViewProgList"
    using handleProgListKeys_step [of m L k] n i
    by (auto intro: navInv_stays navInv_push simp: menuInv_def handlers_fields)
  show "navInv (fst (handleProgDetailKeys L k m)) \<and> menuInv L (fst (handleProgDetailKeys L k m))"
    if "state m = ViewProgDetail"
    using handleProgDetailKeys_step [of m L k] n i
    by (auto intro: navInv_stays navInv_push simp: menuInv_def handlers_fields)
  show "navInv (fst (handleMapListKeys L k m)) \<and> menuInv L (fst (handleMapListKeys L k m))"
    if "state m = ViewMapList"
    using handleMapListKeys_step [of m L k] n i
    by (auto intro: navInv_stays navInv_push simp: menuInv_def handlers_fields)
  show "navInv (fst (handleMapDetailKeys L k m)) \<and> menuInv L (fst (handleMapDetailKeys L k m))"
    if "state m = ViewMapDetail"
    using handleMapDetailKeys_step [of m L k] n i
    by (auto intro: navInv_stays navInv_push simp: menuInv_def handlers_fields)
  show "navInv (fst (handleMapDumpKeys L k m)) \<and> menuInv L (fst (handleMapDumpKeys L k m))"
    using handleMapDumpKeys_step [of m L k] n i
    by (auto intro: navInv_stays simp: menuInv_def handlers_fields)
qed

lemma handleOtherMsg_fields:
  "state (fst (handleOtherMsg L ev m)) = state m"
  "history (fst (handleOtherMsg L ev m)) = history m"
  "menu (fst (handleOtherMsg L ev m)) = menu m"
  "keys (fst (handleOtherMsg L ev m)) = keys m"
  "showHelp (fst (handleOtherMsg L ev m)) = showHelp m"
  by (cases "state m"; simp add: handleOtherMsg_def split: prod.splits)+

lemma Update_inv:
  assumes k: "list_keeps_items L" and n: "navInv m" and i: "menuInv L m"
  shows "navInv (fst (Update L ev m)) \<and> menuInv L (fst (Update L ev m))"
proof (cases ev)
  case (KeyMsg k)
  with handleKeyMsg_inv [OF assms] show ?thesis by (simp add: Update_def)
next
  case (WindowSizeMsg w h)
  have "list_Items L (list_SetSize L w (listHeight h) (menu_list (menu m)))
          = list_Items L (menu_list (menu m))"
    using k by (simp add: list_keeps_items_def)
  with WindowSizeMsg n i show ?thesis
    by (simp add: Update_def navInv_def menuInv_def menu_SetSize_def)
next
  case (OtherMsg x)
  with n i show ?thesis
    by (simp add: Update_def navInv_def menuInv_def handleOtherMsg_fields)
qed

lemma NewModel_inv:
  "list_keeps_items L \<Longrightarrow> navInv (NewModel L ps ms) \<and> menuInv L (NewModel L ps ms)"
  by (simp add: NewModel_def navInv_def menuInv_def newMenuModel_def list_keeps_items_def)

lemma RunWithServices_inv:
  "list_keeps_items L \<Longrightarrow>
   navInv (RunWithServices L ps ms) \<and> menuInv L (RunWithServices L ps ms)"
  using NewModel_inv [of L ps ms]
  by (simp add: RunWithServices_def Let_def navInv_def menuInv_def split: option.split)

lemma reachable_inv:
  "reachable L m \<Longrightarrow> list_keeps_items L \<Longrightarrow> navInv m \<and> menuInv L m"
  by (induction rule: reachable.induct)
     (simp_all add: NewModel_inv RunWithServices_inv Update_inv)

text \<open>
  C10. In every state a session reaches, the history is empty if and only if the current
  view is the menu, and the menu view occurs in a non-empty history as its bottom element
  and nowhere else. So whenever the back handler calls \<open>popState\<close> (the current view is not
  the menu), the history is not empty and \<open>popState\<close> returns its top element, not the
  fallback.
\<close>

theorem C10_history_shape:
  assumes "list_keeps_items L" and "reachable L m"
  shows "(history m = [] \<longleftrightarrow> state m = ViewMenu)
       \<and> (history m \<noteq> [] \<longrightarrow> hd (history m) = ViewMenu \<and> ViewMenu \<notin> set (tl (history m)))
       \<and> (state m \<noteq> ViewMenu \<longrightarrow>
            history m \<noteq> []
          \<and> popState m = (last (history m), m\<lparr>history := butlast (history m)\<rparr>))"
proof -
  from reachable_inv [OF assms(2,1)] have n: "navInv m" by simp
  then have "history m \<noteq> [] \<longrightarrow> hd (history m) = ViewMenu \<and> ViewMenu \<notin> set (tl (history m))"
    by (auto simp: navInv_def split: if_splits)
  moreover from n have "state m \<noteq> ViewMenu \<longrightarrow>
            history m \<noteq> []
          \<and> popState m = (last (history m), m\<lparr>history := butlast (history m)\<rparr>)"
    by (auto simp: popState_eq dest: navInv_nonempty)
  ultimately show ?thesis using navInv_empty [OF n] by blast
qed

subsection \<open>The small widget library meets the assumptions\<close>

lemma simpleLib_keeps_items: "list_keeps_items simpleLib"
  by (auto simp: list_keeps_items_def simpleLib_def simpleList_Update_def
      split: msg.splits if_splits)

lemma simpleLib_filter_stable: "list_filter_stable simpleLib"
  by (simp add: list_filter_stable_def simpleLib_def)

lemma simpleLib_never_quits: "widgets_never_quit simpleLib"
  by (auto simp: widgets_never_quit_def simpleLib_def simpleList_Update_def
      split: msg.splits if_splits)

lemma reachable_pressKeys: "reachable L m \<Longrightarrow> reachable L (pressKeys L ks m)"
  by (induction ks arbitrary: m) (simp_all add: reachable.step)

theorem C10_history_shape_witness:
  "state (pressKeys simpleLib [''enter'', ''enter'', ''enter'']
       (NewModel simpleLib (Some exampleProgSvc) (Some exampleMapsSvc))) = ViewMapDetail
   \<and> history (pressKeys simpleLib [''enter'', ''enter'', ''enter'']
       (NewModel simpleLib (Some exampleProgSvc) (Some exampleMapsSvc)))
     = [ViewMenu, ViewProgList, ViewProgDetail]
   \<and> fst (popState (pressKeys simpleLib [''enter'', ''enter'', ''enter'']
       (NewModel simpleLib (Some exampleProgSvc) (Some exampleMapsSvc)))) = ViewProgDetail"
proof -
  define m where "m = pressKeys simpleLib [''enter'', ''enter'', ''enter'']
       (NewModel simpleLib (Some exampleProgSvc) (Some exampleMapsSvc))"
  have r: "reachable simpleLib m"
    unfolding m_def by (rule reachable_pressKeys [OF reachable.new])
  have s: "state m = ViewMapDetail" and h: "history m = [ViewMenu, ViewProgList, ViewProgDetail]"
    unfolding m_def by code_simp+
  from C10_history_shape [OF simpleLib_keeps_items r] s
  have "popState m = (last (history m), m\<lparr>history := butlast (history m)\<rparr>)"
    by simp
  with s h show ?thesis unfolding m_def by simp
qed

subsection \<open>Lists that are not on screen are not filtering\<close>

lemma handleMenuKeys_lists:
  "(progList (fst (handleMenuKeys L k m)) = progList m
      \<or> state (fst (handleMenuKeys L k m)) = ViewProgList)
   \<and> (mapList (fst (handleMenuKeys L k m)) = mapList m
      \<or> state (fst (handleMenuKeys L k m)) = ViewMapList)"
proof -
  obtain mn c t where u: "menu_Update L (KeyMsg k) (menu m) = (mn, c, t)"
    by (cases "menu_Update L (KeyMsg k) (menu m)") auto
  show ?thesis
  proof (cases t)
    case None
    with u show ?thesis by (simp add: handleMenuKeys_def)
  next
    case (Some v)
    with u show ?thesis by (cases v) (simp_all add: handleMenuKeys_def Let_def)
  qed
qed

lemma filterInv_showHelp [simp]: "filterInv L (m\<lparr>showHelp := b\<rparr>) = filterInv L m"
  by (simp add: filterInv_def)

lemma lists_popState [simp]:
  "progList (snd (popState m)) = progList m"
  "mapList (snd (popState m)) = mapList m"
  "keys (snd (popState m)) = keys m"
  "showHelp (snd (popState m)) = showHelp m"
  by (simp_all add: popState_eq)

lemma not_filtering_lists:
  "filterInv L m \<Longrightarrow> notFiltering L m \<Longrightarrow>
   \<not> progList_IsFiltering L (progList m) \<and> \<not> mapList_IsFiltering L (mapList m)"
  unfolding filterInv_def notFiltering_def
  by (cases "progList_IsFiltering L (progList m)";
      cases "mapList_IsFiltering L (mapList m)"; simp)

lemma handleKeyMsg_filterInv:
  assumes f: "filterInv L m"
  shows "filterInv L (fst (handleKeyMsg L k m))"
proof (rule handleKeyMsg_rule)
  show "filterInv L m" by (rule f)
  show "filterInv L (m\<lparr>showHelp := b\<rparr>)" for b using f by simp
  show "filterInv L ((snd (popState m))\<lparr>state := fst (popState m), err := None\<rparr>)"
    if "notFiltering L m"
    using not_filtering_lists [OF f that] by (simp add: filterInv_def)
  show "filterInv L (fst (handleMenuKeys L k m))" if "state m = ViewMenu"
    using that f handleMenuKeys_lists [of L k m] by (auto simp: filterInv_def)
  show "filterInv L (fst (handleProgListKeys L k m))" if "state m = ViewProgList"
    using that f handleProgListKeys_step [of m L k] by (auto simp: filterInv_def stays_def)
  show "filterInv L (fst (handleProgDetailKeys L k m))" if "state m = ViewProgDetail"
    using that f handleProgDetailKeys_step [of m L k] by (auto simp: filterInv_def)
  show "filterInv L (fst (handleMapListKeys L k m))" if "state m = ViewMapList"
    using that f handleMapListKeys_step [of m L k] by (auto simp: filterInv_def stays_def)
  show "filterInv L (fst (handleMapDetailKeys L k m))" if "state m = ViewMapDetail"
    using that f handleMapDetailKeys_step [of m L k] by (auto simp: filterInv_def)
  show "filterInv L (fst (handleMapDumpKeys L k m))" if "state m = ViewMapDump"
    using that f handleMapDumpKeys_step [of m L k] by (auto simp: filterInv_def stays_def)
qed

lemma handleOtherMsg_lists:
  "(progList (fst (handleOtherMsg L ev m)) = progList m \<or> state m = ViewProgList)
   \<and> (mapList (fst (handleOtherMsg L ev m)) = mapList m \<or> state m = ViewMapList)"
  by (cases "state m"; simp add: handleOtherMsg_def split: prod.splits)

lemma Update_filterInv:
  assumes s: "list_filter_stable L" and f: "filterInv L m"
  shows "filterInv L (fst (Update L ev m))"
proof (cases ev)
  case (KeyMsg k)
  with handleKeyMsg_filterInv [OF f] show ?thesis by (simp add: Update_def)
next
  case (WindowSizeMsg w h)
  have "list_FilterState L (list_SetSize L w (listHeight h) l) = list_FilterState L l" for l
    using s by (simp add: list_filter_stable_def)
  with WindowSizeMsg f show ?thesis
    by (simp add: Update_def filterInv_def progList_IsFiltering_def mapList_IsFiltering_def
        progList_SetSize_def mapList_SetSize_def)
next
  case (OtherMsg x)
  with f handleOtherMsg_lists [of L ev m] show ?thesis
    by (auto simp: Update_def filterInv_def handleOtherMsg_fields)
qed

lemma NewModel_filterInv: "list_filter_stable L \<Longrightarrow> filterInv L (NewModel L ps ms)"
  by (simp add: NewModel_def filterInv_def list_filter_stable_def progList_IsFiltering_def
      mapList_IsFiltering_def newProgListModel_def newMapListModel_def)

lemma RunWithServices_filterInv:
  "list_filter_stable L \<Longrightarrow> filterInv L (RunWithServices L ps ms)"
  using NewModel_filterInv [of L ps ms]
  by (simp add: RunWithServices_def Let_def filterInv_def split: option.split)

lemma reachable_filterInv:
  "reachable L m \<Longrightarrow> list_filter_stable L \<Longrightarrow> filterInv L m"
  by (induction rule: reachable.induct)
     (simp_all add: NewModel_filterInv RunWithServices_filterInv Update_filterInv)

lemma handleKeyMsg_keys: "keys (fst (handleKeyMsg L k m)) = keys m"
  by (rule handleKeyMsg_rule) (simp_all add: handlers_fields handleMenuKeys_fields)

lemma Update_keys: "keys (fst (Update L ev m)) = keys m"
  by (cases ev) (simp_all add: Update_def handleKeyMsg_keys handleOtherMsg_fields)

lemma reachable_keys: "reachable L m \<Longrightarrow> keys m = defaultKeyMap"
  by (induction rule: reachable.induct)
     (simp_all add: Update_keys NewModel_def RunWithServices_def Let_def split: option.split)

subsection \<open>Every step is no navigation, a forward or a backward transition\<close>

lemma handleKeyMsg_step:
  assumes k: "list_keeps_items L" and n: "navInv m" and i: "menuInv L m"
  shows "stays m (fst (handleKeyMsg L k m)) \<or> forward m (fst (handleKeyMsg L k m))
       \<or> backward m (fst (handleKeyMsg L k m))"
proof (rule handleKeyMsg_rule)
  show "stays m m \<or> forward m m \<or> backward m m" by (simp add: stays_def)
  show "stays m (m\<lparr>showHelp := b\<rparr>) \<or> forward m (m\<lparr>showHelp := b\<rparr>)
      \<or> backward m (m\<lparr>showHelp := b\<rparr>)" for b
    by (simp add: stays_def)
  show "stays m ((snd (popState m))\<lparr>state := fst (popState m), err := None\<rparr>)
      \<or> forward m ((snd (popState m))\<lparr>state := fst (popState m), err := None\<rparr>)
      \<or> backward m ((snd (popState m))\<lparr>state := fst (popState m), err := None\<rparr>)"
    if "state m \<noteq> ViewMenu"
    using navInv_nonempty [OF n that] by (simp add: backward_def popState_eq)
  show "stays m (fst (handleMenuKeys L k m)) \<or> forward m (fst (handleMenuKeys L k m))
      \<or> backward m (fst (handleMenuKeys L k m))"
    using handleMenuKeys_step [OF k i, of k] by blast
  show "stays m (fst (handleProgListKeys L k m)) \<or> forward m (fst (handleProgListKeys L k m))
      \<or> backward m (fst (handleProgListKeys L k m))"
    using handleProgListKeys_step [of m L k] by (auto simp: forward_def)
  show "stays m (fst (handleProgDetailKeys L k m)) \<or> forward m (fst (handleProgDetailKeys L k m))
      \<or> backward m (fst (handleProgDetailKeys L k m))"
    using handleProgDetailKeys_step [of m L k] by (auto simp: forward_def)
  show "stays m (fst (handleMapListKeys L k m)) \<or> forward m (fst (handleMapListKeys L k m))
      \<or> backward m (fst (handleMapListKeys L k m))"
    using handleMapListKeys_step [of m L k] by (auto simp: forward_def)
  show "stays m (fst (handleMapDetailKeys L k m)) \<or> forward m (fst (handleMapDetailKeys L k m))
      \<or> backward m (fst (handleMapDetailKeys L k m))"
    using handleMapDetailKeys_step [of m L k] by (auto simp: forward_def)
  show "stays m (fst (handleMapDumpKeys L k m)) \<or> forward m (fst (handleMapDumpKeys L k m))
      \<or> backward m (fst (handleMapDumpKeys L k m))"
    using handleMapDumpKeys_step [of m L k] by blast
qed

lemma Update_step:
  assumes k: "list_keeps_items L" and n: "navInv m" and i: "menuInv L m"
  shows "stays m (fst (Update L ev m)) \<or> forward m (fst (Update L ev m))
       \<or> backward m (fst (Update L ev m))"
proof (cases ev)
  case (KeyMsg k)
  with handleKeyMsg_step [OF assms] show ?thesis by (simp add: Update_def)
next
  case (WindowSizeMsg w h)
  then show ?thesis by (simp add: Update_def stays_def)
next
  case (OtherMsg x)
  then show ?thesis by (simp add: Update_def stays_def handleOtherMsg_fields)
qed

subsection \<open>Pressing the back key repeatedly\<close>

text \<open>In a quiet model the back key navigates: the default keys, no help overlay, the
  history in shape, no list filtering.\<close>

lemma back_quiet:
  assumes "keys m = defaultKeyMap" "\<not> showHelp m" "navInv m"
    "\<not> progList_IsFiltering L (progList m)" "\<not> mapList_IsFiltering L (mapList m)"
    "history m \<noteq> []"
  shows "fst (Update L (KeyMsg ''esc'') m)
           = m\<lparr>history := butlast (history m), state := last (history m), err := None\<rparr>"
proof -
  have nf: "notFiltering L m" using assms(4,5) by (simp add: notFiltering_def)
  have s: "state m \<noteq> ViewMenu" using assms(3,6) by (simp add: navInv_empty)
  have "Matches ''esc'' (k_Back (keys m))" "\<not> Matches ''esc'' (k_Quit (keys m))"
    "\<not> Matches ''esc'' (k_Help (keys m))"
    using assms(1) by (simp_all add: Matches_def defaultKeyMap_def)
  from back_pops [OF this assms(2) nf s assms(6)] show ?thesis by simp
qed

lemma back_key_step:
  assumes k: "keys m = defaultKeyMap" and n: "navInv m"
  shows "stays m (fst (Update L (KeyMsg ''esc'') m))
       \<or> (backward m (fst (Update L (KeyMsg ''esc'') m)) \<and> history m \<noteq> [])"
proof -
  have mk: "Matches ''esc'' (k_Back (keys m))" "\<not> Matches ''esc'' (k_Quit (keys m))"
    "\<not> Matches ''esc'' (k_Help (keys m))"
    using k by (simp_all add: Matches_def defaultKeyMap_def)
  consider (overlay) "showHelp m"
    | (progs) "\<not> showHelp m" "state m = ViewProgList" "progList_IsFiltering L (progList m)"
    | (maps) "\<not> showHelp m" "state m = ViewMapList" "mapList_IsFiltering L (mapList m)"
    | (top) "\<not> showHelp m" "notFiltering L m" "state m = ViewMenu"
    | (pop) "\<not> showHelp m" "notFiltering L m" "state m \<noteq> ViewMenu"
    unfolding notFiltering_def
    by (cases "showHelp m"; cases "state m = ViewMenu";
        cases "state m = ViewProgList \<and> progList_IsFiltering L (progList m)";
        cases "state m = ViewMapList \<and> mapList_IsFiltering L (mapList m)") simp_all
  then show ?thesis
  proof cases
    case overlay
    with mk show ?thesis by (simp add: Update_def handleKeyMsg_def stays_def)
  next
    case progs
    with mk have "Update L (KeyMsg ''esc'') m = handleProgListKeys L ''esc'' m"
      by (simp add: Update_def handleKeyMsg_def notFiltering_def)
    with progs(3) handleProgListKeys_step [of m L "''esc''"] show ?thesis by auto
  next
    case maps
    with mk have "Update L (KeyMsg ''esc'') m = handleMapListKeys L ''esc'' m"
      by (simp add: Update_def handleKeyMsg_def notFiltering_def)
    with maps(3) handleMapListKeys_step [of m L "''esc''"] show ?thesis by auto
  next
    case top
    with mk show ?thesis
      by (auto simp: Update_def handleKeyMsg_def notFiltering_def stays_def split: if_splits)
  next
    case pop
    from navInv_nonempty [OF n pop(3)] have ne: "history m \<noteq> []" .
    from back_pops [OF mk pop(1,2,3) ne] ne show ?thesis
      by (simp add: backward_def)
  qed
qed

lemma pressBack_Suc:
  "pressBack L (Suc n) m = pressBack L n (fst (Update L (KeyMsg ''esc'') m))"
  by (simp add: pressBack_def)

lemma pressBack_quiet:
  assumes "keys m = defaultKeyMap" "\<not> showHelp m" "navInv m"
    "\<not> progList_IsFiltering L (progList m)" "\<not> mapList_IsFiltering L (mapList m)"
    "n \<le> length (history m)"
  shows "history (pressBack L n m) = take (length (history m) - n) (history m)
       \<and> state (pressBack L n m) = (state m # rev (history m)) ! n"
  using assms
proof (induction n arbitrary: m)
  case 0
  then show ?case by (simp add: pressBack_def)
next
  case (Suc n)
  then have ne: "history m \<noteq> []" by auto
  define m' where "m' = m\<lparr>history := butlast (history m), state := last (history m), err := None\<rparr>"
  have e: "fst (Update L (KeyMsg ''esc'') m) = m'"
    unfolding m'_def by (rule back_quiet [OF Suc.prems(1-5) ne])
  have s: "state m \<noteq> ViewMenu" using Suc.prems(3) ne by (simp add: navInv_empty)
  have "navInv ((snd (popState m))\<lparr>state := fst (popState m), err := None\<rparr>)"
    by (rule navInv_pop [OF Suc.prems(3) s])
  then have n': "navInv m'" using ne by (simp add: popState_eq m'_def)
  have q: "keys m' = defaultKeyMap" "\<not> showHelp m'"
    "\<not> progList_IsFiltering L (progList m')" "\<not> mapList_IsFiltering L (mapList m')"
    using Suc.prems(1,2,4,5) by (simp_all add: m'_def)
  have l: "n \<le> length (history m')" using Suc.prems(6) by (simp add: m'_def)
  from Suc.IH [OF q(1,2) n' q(3,4) l]
  have ih: "history (pressBack L n m') = take (length (history m') - n) (history m')"
    "state (pressBack L n m') = (state m' # rev (history m')) ! n"
    by simp_all
  have h1: "take (length (history m') - n) (history m')
              = take (length (history m) - Suc n) (history m)"
    by (simp add: m'_def butlast_conv_take min_def)
  have r: "rev (history m) = last (history m) # rev (butlast (history m))"
    using ne by (metis append_butlast_last_id rev.simps(2) rev_rev_ident rev_singleton_conv
        rev_append)
  have h2: "(state m' # rev (history m')) ! n = (state m # rev (history m)) ! Suc n"
    by (simp add: m'_def r)
  from ih h1 h2 show ?case by (simp add: pressBack_Suc e)
qed

lemma backViews_quiet:
  assumes "keys m = defaultKeyMap" "\<not> showHelp m" "navInv m"
    "\<not> progList_IsFiltering L (progList m)" "\<not> mapList_IsFiltering L (mapList m)"
    "n \<le> length (history m)"
  shows "backViews L n m = take n (rev (history m))"
proof (rule nth_equalityI)
  show "length (backViews L n m) = length (take n (rev (history m)))"
    using assms(6) by (simp add: backViews_def del: upt_Suc)
next
  fix i assume "i < length (backViews L n m)"
  then have i: "i < n" by (simp add: backViews_def del: upt_Suc)
  then have "Suc i \<le> length (history m)" using assms(6) by simp
  from pressBack_quiet [OF assms(1-5) this]
  have "state (pressBack L (Suc i) m) = rev (history m) ! i" by simp
  moreover have "backViews L n m ! i = state (pressBack L (Suc i) m)"
    using i by (simp add: backViews_def nth_append del: upt_Suc)
  ultimately show "backViews L n m ! i = take n (rev (history m)) ! i"
    using i by simp
qed

text \<open>
  C1. Stack symmetry. In a session, every step is no navigation, a forward transition
  that pushes the view being left (\<open>forward\<close>), or a backward transition to the view on top
  of the history (\<open>backward\<close>); so the history lists, oldest first, the views left by the
  forward transitions that produced the state. In every state a session reaches, a press
  of the back key either changes neither view nor history (it closes the help overlay,
  goes to a filtering list, or is pressed at the menu) or goes backward; and with the
  help overlay hidden and no list filtering, \<open>n\<close> presses of the back key show the last
  \<open>n\<close> views of the history, most recent first, and leave the rest of the history.
\<close>

theorem C1_stack_symmetry:
  assumes "list_keeps_items L" and "list_filter_stable L" and "reachable L m"
  shows "(stays m (fst (Update L ev m)) \<or> forward m (fst (Update L ev m))
            \<or> backward m (fst (Update L ev m)))
       \<and> (stays m (fst (Update L (KeyMsg ''esc'') m))
            \<or> (backward m (fst (Update L (KeyMsg ''esc'') m)) \<and> history m \<noteq> []))
       \<and> (\<not> showHelp m \<and> notFiltering L m \<and> n \<le> length (history m) \<longrightarrow>
            backViews L n m = take n (rev (history m))
          \<and> history (pressBack L n m) = take (length (history m) - n) (history m))"
proof -
  from reachable_inv [OF assms(3,1)] have n: "navInv m" and i: "menuInv L m" by simp_all
  have f: "filterInv L m" by (rule reachable_filterInv [OF assms(3,2)])
  have k: "keys m = defaultKeyMap" by (rule reachable_keys [OF assms(3)])
  have "backViews L n m = take n (rev (history m))
      \<and> history (pressBack L n m) = take (length (history m) - n) (history m)"
    if "\<not> showHelp m" "notFiltering L m" "n \<le> length (history m)"
  proof -
    from not_filtering_lists [OF f that(2)]
    have nf: "\<not> progList_IsFiltering L (progList m)" "\<not> mapList_IsFiltering L (mapList m)"
      by simp_all
    from backViews_quiet [OF k that(1) n nf that(3)] pressBack_quiet [OF k that(1) n nf that(3)]
    show ?thesis by simp
  qed
  with Update_step [OF assms(1) n i, of ev] back_key_step [OF k n, of L]
  show ?thesis by blast
qed

text \<open>The session Menu, program list, program detail, map detail (through the associated
  map \<open>10\<close>): three back presses show the program detail, the program list and the menu.\<close>

theorem C1_stack_symmetry_witness:
  "state (pressKeys simpleLib [''enter'', ''enter'', ''enter'']
       (NewModel simpleLib (Some exampleProgSvc) (Some exampleMapsSvc))) = ViewMapDetail
   \<and> backViews simpleLib 3 (pressKeys simpleLib [''enter'', ''enter'', ''enter'']
       (NewModel simpleLib (Some exampleProgSvc) (Some exampleMapsSvc)))
     = [ViewProgDetail, ViewProgList, ViewMenu]
   \<and> history (pressBack simpleLib 3 (pressKeys simpleLib [''enter'', ''enter'', ''enter'']
       (NewModel simpleLib (Some exampleProgSvc) (Some exampleMapsSvc)))) = []"
proof -
  define m where "m = pressKeys simpleLib [''enter'', ''enter'', ''enter'']
       (NewModel simpleLib (Some exampleProgSvc) (Some exampleMapsSvc))"
  have r: "reachable simpleLib m"
    unfolding m_def by (rule reachable_pressKeys [OF reachable.new])
  have s: "state m = ViewMapDetail" and h: "history m = [ViewMenu, ViewProgList, ViewProgDetail]"
    unfolding m_def by code_simp+
  have q: "\<not> showHelp m \<and> notFiltering simpleLib m \<and> 3 \<le> length (history m)"
    unfolding m_def by code_simp
  from C1_stack_symmetry [OF simpleLib_keeps_items simpleLib_filter_stable r, of _ 3] q
  have "backViews simpleLib 3 m = take 3 (rev (history m))
      \<and> history (pressBack simpleLib 3 m) = take (length (history m) - 3) (history m)"
    by blast
  with s h show ?thesis unfolding m_def by simp
qed

subsection \<open>Quitting\<close>

lemma list_cmd: "widgets_never_quit L \<Longrightarrow> snd (list_Update L ev l) \<noteq> Some Quit"
  by (simp add: widgets_never_quit_def)

lemma vp_cmd: "widgets_never_quit L \<Longrightarrow> snd (vp_Update L ev v) \<noteq> Some Quit"
  by (simp add: widgets_never_quit_def)

lemma menu_Update_cmd:
  "widgets_never_quit L \<Longrightarrow> fst (snd (menu_Update L ev mn)) \<noteq> Some Quit"
  using list_cmd [of L ev "menu_list mn"]
  by (auto simp: menu_Update_def Let_def
      split: msg.splits if_splits option.splits Item.splits prod.splits)

lemma progList_Update_cmd:
  "widgets_never_quit L \<Longrightarrow> fst (snd (progList_Update L ev pl)) \<noteq> Some Quit"
  using list_cmd [of L ev "pl_list pl"]
  by (auto simp: progList_Update_def Let_def
      split: msg.splits if_splits option.splits Item.splits prod.splits)

lemma mapList_Update_cmd:
  "widgets_never_quit L \<Longrightarrow> fst (snd (mapList_Update L ev ml)) \<noteq> Some Quit"
  using list_cmd [of L ev "ml_list ml"]
  by (auto simp: mapList_Update_def Let_def
      split: msg.splits if_splits option.splits Item.splits prod.splits)

lemma progDetail_Update_cmd:
  "widgets_never_quit L \<Longrightarrow> fst (snd (progDetail_Update L ev pd)) \<noteq> Some Quit"
  using vp_cmd [of L ev "pd_viewport pd"]
  by (auto simp: progDetail_Update_def Let_def split: msg.splits if_splits prod.splits)

lemma mapDetail_Update_cmd:
  "widgets_never_quit L \<Longrightarrow> fst (snd (mapDetail_Update L ev md)) \<noteq> Some Quit"
  using vp_cmd [of L ev "md_viewport md"]
  by (auto simp: mapDetail_Update_def Let_def split: msg.splits if_splits prod.splits)

lemma mapDump_Update_cmd:
  "widgets_never_quit L \<Longrightarrow> snd (mapDump_Update L ev du) \<noteq> Some Quit"
  using vp_cmd [of L ev "du_viewport du"]
  by (auto simp: mapDump_Update_def split: prod.splits)

lemma handlers_cmd:
  assumes "widgets_never_quit L"
  shows "snd (handleMenuKeys L k m) \<noteq> Some Quit"
    and "snd (handleProgListKeys L k m) \<noteq> Some Quit"
    and "snd (handleProgDetailKeys L k m) \<noteq> Some Quit"
    and "snd (handleMapListKeys L k m) \<noteq> Some Quit"
    and "snd (handleMapDetailKeys L k m) \<noteq> Some Quit"
    and "snd (handleMapDumpKeys L k m) \<noteq> Some Quit"
proof -
  show "snd (handleMenuKeys L k m) \<noteq> Some Quit"
    using menu_Update_cmd [OF assms, of "KeyMsg k" "menu m"]
    by (auto simp: handleMenuKeys_def Let_def split: prod.splits option.splits)
  show "snd (handleProgListKeys L k m) \<noteq> Some Quit"
    using progList_Update_cmd [OF assms, of "KeyMsg k" "progList m"]
    by (auto simp: handleProgListKeys_def Let_def split: prod.splits option.splits)
  show "snd (handleProgDetailKeys L k m) \<noteq> Some Quit"
    using progDetail_Update_cmd [OF assms, of "KeyMsg k" "progDetail m"]
    by (auto simp: handleProgDetailKeys_def Let_def split: prod.splits option.splits)
  show "snd (handleMapListKeys L k m) \<noteq> Some Quit"
    using mapList_Update_cmd [OF assms, of "KeyMsg k" "mapList m"]
    by (auto simp: handleMapListKeys_def Let_def split: prod.splits option.splits)
  show "snd (handleMapDetailKeys L k m) \<noteq> Some Quit"
    using mapDetail_Update_cmd [OF assms, of "KeyMsg k" "mapDetail m"]
    by (auto simp: handleMapDetailKeys_def Let_def split: prod.splits)
  show "snd (handleMapDumpKeys L k m) \<noteq> Some Quit"
    using mapDump_Update_cmd [OF assms, of "KeyMsg k" "mapDump m"]
    by (auto simp: handleMapDumpKeys_def split: prod.splits)
qed

lemma handleOtherMsg_cmd:
  assumes "widgets_never_quit L"
  shows "snd (handleOtherMsg L ev m) \<noteq> Some Quit"
  using progList_Update_cmd [OF assms, of ev "progList m"]
    mapList_Update_cmd [OF assms, of ev "mapList m"]
    mapDump_Update_cmd [OF assms, of ev "mapDump m"]
  by (cases "state m") (auto simp: handleOtherMsg_def split: prod.splits)

lemma handleKeyMsg_quit:
  assumes "widgets_never_quit L"
  shows "snd (handleKeyMsg L k m) = Some Quit
         \<longleftrightarrow> Matches k (k_Quit (keys m)) \<and> notFiltering L m"
  using handleKeyMsg_cases [of k m L] handlers_cmd [OF assms, of k m]
  by (elim disjE conjE) simp_all

lemma quit_forwarded_progList:
  assumes "Matches k (k_Quit (keys m))" "\<not> showHelp m" "state m = ViewProgList"
    "progList_IsFiltering L (progList m)"
  shows "Update L (KeyMsg k) m
           = (m\<lparr>progList := (progList m)\<lparr>pl_list :=
                  fst (list_Update L (KeyMsg k) (pl_list (progList m)))\<rparr>\<rparr>,
              snd (list_Update L (KeyMsg k) (pl_list (progList m))))"
proof -
  have "Update L (KeyMsg k) m = handleProgListKeys L k m"
    using assms by (simp add: Update_def handleKeyMsg_def notFiltering_def)
  also have "\<dots> = (m\<lparr>progList := (progList m)\<lparr>pl_list :=
                  fst (list_Update L (KeyMsg k) (pl_list (progList m)))\<rparr>\<rparr>,
              snd (list_Update L (KeyMsg k) (pl_list (progList m))))"
    using assms(4)
    by (simp add: handleProgListKeys_def progList_Update_def progList_IsFiltering_def
        Let_def split: prod.splits)
  finally show ?thesis .
qed

lemma quit_forwarded_mapList:
  assumes "Matches k (k_Quit (keys m))" "\<not> showHelp m" "state m = ViewMapList"
    "mapList_IsFiltering L (mapList m)"
  shows "Update L (KeyMsg k) m
           = (m\<lparr>mapList := (mapList m)\<lparr>ml_list :=
                  fst (list_Update L (KeyMsg k) (ml_list (mapList m)))\<rparr>\<rparr>,
              snd (list_Update L (KeyMsg k) (ml_list (mapList m))))"
proof -
  have "Update L (KeyMsg k) m = handleMapListKeys L k m"
    using assms by (simp add: Update_def handleKeyMsg_def notFiltering_def)
  also have "\<dots> = (m\<lparr>mapList := (mapList m)\<lparr>ml_list :=
                  fst (list_Update L (KeyMsg k) (ml_list (mapList m)))\<rparr>\<rparr>,
              snd (list_Update L (KeyMsg k) (ml_list (mapList m))))"
    using assms(4)
    by (simp add: handleMapListKeys_def mapList_Update_def mapList_IsFiltering_def
        Let_def split: prod.splits)
  finally show ?thesis .
qed

lemma handlers_cmd_eq:
  "snd (handleMenuKeys L k m) = fst (snd (menu_Update L (KeyMsg k) (menu m)))"
  "snd (handleProgListKeys L k m) = fst (snd (progList_Update L (KeyMsg k) (progList m)))"
  "snd (handleProgDetailKeys L k m) = fst (snd (progDetail_Update L (KeyMsg k) (progDetail m)))"
  "snd (handleMapListKeys L k m) = fst (snd (mapList_Update L (KeyMsg k) (mapList m)))"
  "snd (handleMapDetailKeys L k m) = fst (snd (mapDetail_Update L (KeyMsg k) (mapDetail m)))"
  "snd (handleMapDumpKeys L k m) = snd (mapDump_Update L (KeyMsg k) (mapDump m))"
  by (auto simp: handleMenuKeys_def handleProgListKeys_def handleProgDetailKeys_def
      handleMapListKeys_def handleMapDetailKeys_def handleMapDumpKeys_def Let_def
      split: prod.splits option.splits)

lemma sub_cmd_cases:
  "fst (snd (menu_Update L ev mn)) = None
   \<or> fst (snd (menu_Update L ev mn)) = snd (list_Update L ev (menu_list mn))"
  "fst (snd (progList_Update L ev pl)) = None
   \<or> fst (snd (progList_Update L ev pl)) = snd (list_Update L ev (pl_list pl))"
  "fst (snd (mapList_Update L ev ml)) = None
   \<or> fst (snd (mapList_Update L ev ml)) = snd (list_Update L ev (ml_list ml))"
  "fst (snd (progDetail_Update L ev pd)) = None
   \<or> fst (snd (progDetail_Update L ev pd)) = snd (vp_Update L ev (pd_viewport pd))"
  "fst (snd (mapDetail_Update L ev md)) = None
   \<or> fst (snd (mapDetail_Update L ev md)) = snd (vp_Update L ev (md_viewport md))"
  "snd (mapDump_Update L ev du) = snd (vp_Update L ev (du_viewport du))"
  by (auto simp: menu_Update_def progList_Update_def mapList_Update_def
      progDetail_Update_def mapDetail_Update_def mapDump_Update_def Let_def
      split: msg.splits if_splits option.splits Item.splits prod.splits)

lemma handlers_quit_is_widget:
  "state m = ViewMenu \<Longrightarrow> snd (handleMenuKeys L k m) = Some Quit \<Longrightarrow>
     widgetCmd L (KeyMsg k) m = Some Quit"
  "state m = ViewProgList \<Longrightarrow> snd (handleProgListKeys L k m) = Some Quit \<Longrightarrow>
     widgetCmd L (KeyMsg k) m = Some Quit"
  "state m = ViewProgDetail \<Longrightarrow> snd (handleProgDetailKeys L k m) = Some Quit \<Longrightarrow>
     widgetCmd L (KeyMsg k) m = Some Quit"
  "state m = ViewMapList \<Longrightarrow> snd (handleMapListKeys L k m) = Some Quit \<Longrightarrow>
     widgetCmd L (KeyMsg k) m = Some Quit"
  "state m = ViewMapDetail \<Longrightarrow> snd (handleMapDetailKeys L k m) = Some Quit \<Longrightarrow>
     widgetCmd L (KeyMsg k) m = Some Quit"
  "state m = ViewMapDump \<Longrightarrow> snd (handleMapDumpKeys L k m) = Some Quit \<Longrightarrow>
     widgetCmd L (KeyMsg k) m = Some Quit"
  using sub_cmd_cases(1) [of L "KeyMsg k" "menu m"]
    sub_cmd_cases(2) [of L "KeyMsg k" "progList m"]
    sub_cmd_cases(3) [of L "KeyMsg k" "mapList m"]
    sub_cmd_cases(4) [of L "KeyMsg k" "progDetail m"]
    sub_cmd_cases(5) [of L "KeyMsg k" "mapDetail m"]
    sub_cmd_cases(6) [of L "KeyMsg k" "mapDump m"]
  by (auto simp: handlers_cmd_eq widgetCmd_def)

lemma handleKeyMsg_quit_source:
  assumes "snd (handleKeyMsg L k m) = Some Quit"
  shows "(Matches k (k_Quit (keys m)) \<and> notFiltering L m)
       \<or> widgetCmd L (KeyMsg k) m = Some Quit"
  using handleKeyMsg_cases [of k m L] assms handlers_quit_is_widget [of m L k]
  by (elim disjE conjE) simp_all

lemma handleOtherMsg_quit_source:
  assumes "snd (handleOtherMsg L ev m) = Some Quit"
  shows "widgetCmd L ev m = Some Quit"
  using assms sub_cmd_cases(2) [of L ev "progList m"] sub_cmd_cases(3) [of L ev "mapList m"]
    sub_cmd_cases(6) [of L ev "mapDump m"]
  by (cases "state m") (auto simp: handleOtherMsg_def widgetCmd_def split: prod.splits)

lemma Update_quit_source:
  assumes "snd (Update L ev m) = Some Quit"
  shows "(\<exists>k. ev = KeyMsg k \<and> Matches k (k_Quit (keys m)) \<and> notFiltering L m)
       \<or> widgetCmd L ev m = Some Quit"
proof (cases ev)
  case (KeyMsg k)
  with assms handleKeyMsg_quit_source [of L k m] show ?thesis by (simp add: Update_def)
next
  case (WindowSizeMsg w h)
  with assms show ?thesis by (simp add: Update_def)
next
  case (OtherMsg x)
  with assms handleOtherMsg_quit_source [of L ev m] show ?thesis by (simp add: Update_def)
qed

lemma Update_quit_iff:
  assumes "widgets_never_quit L"
  shows "snd (Update L ev m) = Some Quit
           \<longleftrightarrow> (\<exists>k. ev = KeyMsg k \<and> Matches k (k_Quit (keys m)) \<and> notFiltering L m)"
proof (cases ev)
  case (KeyMsg k')
  then show ?thesis by (simp add: Update_def handleKeyMsg_quit [OF assms])
next
  case (WindowSizeMsg w h)
  then show ?thesis by (simp add: Update_def)
next
  case (OtherMsg x)
  then show ?thesis using handleOtherMsg_cmd [OF assms, of ev m] by (simp add: Update_def)
qed

text \<open>
  C5 as stated fails: \<open>ctrl+c\<close> is a key of the quit binding; pressed while the maps list is
  in filter entry it is not handled by the quit branch but handed to the list widget, and
  the list widget's own force-quit binding answers it with the quit command. So the quit
  command is returned although a list is filtering.
\<close>

theorem C5_counterexample:
  "state filteringSession = ViewMapList
   \<and> mapList_IsFiltering forceQuitLib (mapList filteringSession)
   \<and> \<not> notFiltering forceQuitLib filteringSession
   \<and> Matches ''ctrl+c'' (k_Quit (keys filteringSession))
   \<and> snd (Update forceQuitLib (KeyMsg ''ctrl+c'') filteringSession) = Some Quit"
  unfolding filteringSession_def by code_simp

text \<open>
  C5, amended. The root update function itself returns the quit command exactly in its
  quit branch: for a key message that matches the quit binding while the active view is
  not a list in filter-entry mode (\<open>notFiltering\<close>), and then it leaves the model as it is.
  Every other quit command it returns is the command that the widget of the current view
  returned for the message. A quit key pressed while the active list is filtering (help
  hidden) is handed to that list's widget: the result is the model with that list updated
  by the widget, and the widget's command, so the session ends then exactly if the widget
  answers with the quit command. With widgets that never return the quit command, the quit
  command is returned if and only if the message is a quit key and no active list is
  filtering.
\<close>

theorem C5_quit_by_root_or_widget:
  "(Matches k (k_Quit (keys m)) \<and> notFiltering L m \<longrightarrow>
      Update L (KeyMsg k) m = (m, Some Quit))
   \<and> (snd (Update L ev m) = Some Quit \<longrightarrow>
        (\<exists>k. ev = KeyMsg k \<and> Matches k (k_Quit (keys m)) \<and> notFiltering L m)
      \<or> widgetCmd L ev m = Some Quit)
   \<and> (Matches k (k_Quit (keys m)) \<and> \<not> showHelp m \<and> state m = ViewProgList
        \<and> progList_IsFiltering L (progList m) \<longrightarrow>
        Update L (KeyMsg k) m
          = (m\<lparr>progList := (progList m)\<lparr>pl_list :=
                 fst (list_Update L (KeyMsg k) (pl_list (progList m)))\<rparr>\<rparr>,
             snd (list_Update L (KeyMsg k) (pl_list (progList m)))))
   \<and> (Matches k (k_Quit (keys m)) \<and> \<not> showHelp m \<and> state m = ViewMapList
        \<and> mapList_IsFiltering L (mapList m) \<longrightarrow>
        Update L (KeyMsg k) m
          = (m\<lparr>mapList := (mapList m)\<lparr>ml_list :=
                 fst (list_Update L (KeyMsg k) (ml_list (mapList m)))\<rparr>\<rparr>,
             snd (list_Update L (KeyMsg k) (ml_list (mapList m)))))
   \<and> (widgets_never_quit L \<longrightarrow>
        (snd (Update L ev m) = Some Quit
           \<longleftrightarrow> (\<exists>k. ev = KeyMsg k \<and> Matches k (k_Quit (keys m)) \<and> notFiltering L m)))"
proof -
  have a: "Matches k (k_Quit (keys m)) \<and> notFiltering L m \<longrightarrow>
            Update L (KeyMsg k) m = (m, Some Quit)"
    by (simp add: Update_def handleKeyMsg_def)
  have b: "snd (Update L ev m) = Some Quit \<longrightarrow>
        (\<exists>k. ev = KeyMsg k \<and> Matches k (k_Quit (keys m)) \<and> notFiltering L m)
      \<or> widgetCmd L ev m = Some Quit"
    using Update_quit_source [of L ev m] by blast
  have c: "widgets_never_quit L \<longrightarrow>
        (snd (Update L ev m) = Some Quit
           \<longleftrightarrow> (\<exists>k. ev = KeyMsg k \<and> Matches k (k_Quit (keys m)) \<and> notFiltering L m))"
    using Update_quit_iff [of L ev m] by blast
  from a b c quit_forwarded_progList [of k m L] quit_forwarded_mapList [of k m L]
  show ?thesis by blast
qed

text \<open>In the filtering maps list of the counterexample, \<open>ctrl+c\<close> goes to the list widget,
  which quits, and \<open>q\<close> goes to the list widget, which returns no command. On the library
  whose widgets never quit, \<open>q\<close> quits in the maps list and does not while it is
  filtering.\<close>

theorem C5_quit_by_root_or_widget_witness:
  "snd (Update forceQuitLib (KeyMsg ''ctrl+c'') filteringSession) = Some Quit
   \<and> widgetCmd forceQuitLib (KeyMsg ''ctrl+c'') filteringSession = Some Quit
   \<and> snd (Update forceQuitLib (KeyMsg ''q'') filteringSession) = None
   \<and> state (fst (Update forceQuitLib (KeyMsg ''q'') filteringSession)) = ViewMapList
   \<and> snd (Update simpleLib (KeyMsg ''q'')
      (pressKeys simpleLib [''down'', ''enter'']
         (NewModel simpleLib None (Some exampleMapsSvc)))) = Some Quit
   \<and> snd (Update simpleLib (KeyMsg ''q'')
      (pressKeys simpleLib [''down'', ''enter'', ''/'']
         (NewModel simpleLib None (Some exampleMapsSvc)))) \<noteq> Some Quit"
proof -
  define m1 where "m1 = pressKeys simpleLib [''down'', ''enter'']
         (NewModel simpleLib None (Some exampleMapsSvc))"
  define m2 where "m2 = pressKeys simpleLib [''down'', ''enter'', ''/'']
         (NewModel simpleLib None (Some exampleMapsSvc))"
  have h1: "Matches ''q'' (k_Quit (keys m1)) \<and> notFiltering simpleLib m1"
    unfolding m1_def by code_simp
  have h2: "\<not> notFiltering simpleLib m2"
    unfolding m2_def by code_simp
  have hc: "Matches ''ctrl+c'' (k_Quit (keys filteringSession)) \<and> \<not> showHelp filteringSession
            \<and> state filteringSession = ViewMapList
            \<and> mapList_IsFiltering forceQuitLib (mapList filteringSession)"
    unfolding filteringSession_def by code_simp
  have hq: "Matches ''q'' (k_Quit (keys filteringSession)) \<and> \<not> showHelp filteringSession
            \<and> state filteringSession = ViewMapList
            \<and> mapList_IsFiltering forceQuitLib (mapList filteringSession)"
    unfolding filteringSession_def by code_simp
  have wc: "snd (list_Update forceQuitLib (KeyMsg ''ctrl+c'') (ml_list (mapList filteringSession)))
              = Some Quit"
    unfolding filteringSession_def by code_simp
  have wq: "snd (list_Update forceQuitLib (KeyMsg ''q'') (ml_list (mapList filteringSession)))
              = None"
    unfolding filteringSession_def by code_simp
  from hc C5_quit_by_root_or_widget [where L = forceQuitLib and k = "''ctrl+c''"
      and m = filteringSession and ev = "KeyMsg ''ctrl+c''"]
  have "Update forceQuitLib (KeyMsg ''ctrl+c'') filteringSession
          = (filteringSession\<lparr>mapList := (mapList filteringSession)\<lparr>ml_list :=
                 fst (list_Update forceQuitLib (KeyMsg ''ctrl+c'')
                        (ml_list (mapList filteringSession)))\<rparr>\<rparr>,
             snd (list_Update forceQuitLib (KeyMsg ''ctrl+c'')
                    (ml_list (mapList filteringSession))))"
    by blast
  with wc have a: "snd (Update forceQuitLib (KeyMsg ''ctrl+c'') filteringSession) = Some Quit"
    by simp
  have nf: "\<not> notFiltering forceQuitLib filteringSession"
    using hc by (simp add: notFiltering_def)
  from a nf C5_quit_by_root_or_widget [where L = forceQuitLib and k = "''ctrl+c''"
      and m = filteringSession and ev = "KeyMsg ''ctrl+c''"]
  have b: "widgetCmd forceQuitLib (KeyMsg ''ctrl+c'') filteringSession = Some Quit"
    by blast
  from hq C5_quit_by_root_or_widget [where L = forceQuitLib and k = "''q''"
      and m = filteringSession and ev = "KeyMsg ''q''"]
  have "Update forceQuitLib (KeyMsg ''q'') filteringSession
          = (filteringSession\<lparr>mapList := (mapList filteringSession)\<lparr>ml_list :=
                 fst (list_Update forceQuitLib (KeyMsg ''q'')
                        (ml_list (mapList filteringSession)))\<rparr>\<rparr>,
             snd (list_Update forceQuitLib (KeyMsg ''q'')
                    (ml_list (mapList filteringSession))))"
    by blast
  with wq hq have c: "snd (Update forceQuitLib (KeyMsg ''q'') filteringSession) = None"
    "state (fst (Update forceQuitLib (KeyMsg ''q'') filteringSession)) = ViewMapList"
    by simp_all
  from C5_quit_by_root_or_widget [where L = simpleLib and k = "''q''" and m = m1
      and ev = "KeyMsg ''q''"] h1
  have d: "snd (Update simpleLib (KeyMsg ''q'') m1) = Some Quit" by simp
  from C5_quit_by_root_or_widget [where L = simpleLib and k = "''q''" and m = m2
      and ev = "KeyMsg ''q''"] h2 simpleLib_never_quits
  have e: "snd (Update simpleLib (KeyMsg ''q'') m2) \<noteq> Some Quit" by blast
  from a b c d e show ?thesis unfolding m1_def m2_def by blast
qed

subsection \<open>Empty lists\<close>

lemma keeps_SetItems:
  "list_keeps_items L \<Longrightarrow> list_Items L (list_SetItems L items l) = items"
  by (simp add: list_keeps_items_def)

lemma no_items_no_selection:
  "list_keeps_items L \<Longrightarrow> list_Items L l = [] \<Longrightarrow> list_SelectedItem L l = None"
  using keeps_selected [of L l] by (cases "list_SelectedItem L l") auto

lemma progList_Update_keeps:
  assumes "list_keeps_items L"
  shows "pl_programs (fst (progList_Update L ev pl)) = pl_programs pl
       \<and> pl_err (fst (progList_Update L ev pl)) = pl_err pl
       \<and> list_Items L (pl_list (fst (progList_Update L ev pl))) = list_Items L (pl_list pl)"
  using keeps_Update [OF assms, of ev "pl_list pl"]
  by (auto simp: progList_Update_def Let_def
      split: msg.splits if_splits option.splits Item.splits prod.splits)

lemma mapList_Update_keeps:
  assumes "list_keeps_items L"
  shows "ml_maps (fst (mapList_Update L ev ml)) = ml_maps ml
       \<and> ml_err (fst (mapList_Update L ev ml)) = ml_err ml
       \<and> list_Items L (ml_list (fst (mapList_Update L ev ml))) = list_Items L (ml_list ml)"
  using keeps_Update [OF assms, of ev "ml_list ml"]
  by (auto simp: mapList_Update_def Let_def
      split: msg.splits if_splits option.splits Item.splits prod.splits)

lemma progList_keys_keep:
  assumes "list_keeps_items L"
  shows "pl_programs (foldl (\<lambda>p k. fst (progList_Update L (KeyMsg k) p)) pl ks) = pl_programs pl
       \<and> pl_err (foldl (\<lambda>p k. fst (progList_Update L (KeyMsg k) p)) pl ks) = pl_err pl
       \<and> list_Items L (pl_list (foldl (\<lambda>p k. fst (progList_Update L (KeyMsg k) p)) pl ks))
           = list_Items L (pl_list pl)"
  by (induction ks arbitrary: pl) (simp_all add: progList_Update_keeps [OF assms])

lemma mapList_keys_keep:
  assumes "list_keeps_items L"
  shows "ml_maps (foldl (\<lambda>p k. fst (mapList_Update L (KeyMsg k) p)) ml ks) = ml_maps ml
       \<and> ml_err (foldl (\<lambda>p k. fst (mapList_Update L (KeyMsg k) p)) ml ks) = ml_err ml
       \<and> list_Items L (ml_list (foldl (\<lambda>p k. fst (mapList_Update L (KeyMsg k) p)) ml ks))
           = list_Items L (ml_list ml)"
  by (induction ks arbitrary: ml) (simp_all add: mapList_Update_keeps [OF assms])

lemma emptyProgList_fields:
  assumes "list_keeps_items L"
  shows "pl_programs (emptyProgList L pl0 ks) = []"
    and "pl_err (emptyProgList L pl0 ks) = pl_err pl0"
    and "list_Items L (pl_list (emptyProgList L pl0 ks)) = []"
  using progList_keys_keep [OF assms, of "progList_SetPrograms L [] pl0" ks]
  by (simp_all add: emptyProgList_def progList_SetPrograms_def Let_def keeps_SetItems [OF assms])

lemma emptyMapList_fields:
  assumes "list_keeps_items L"
  shows "ml_maps (emptyMapList L ml0 ks) = []"
    and "ml_err (emptyMapList L ml0 ks) = ml_err ml0"
    and "list_Items L (ml_list (emptyMapList L ml0 ks)) = []"
  using mapList_keys_keep [OF assms, of "mapList_SetMaps L [] ml0" ks]
  by (simp_all add: emptyMapList_def mapList_SetMaps_def Let_def keeps_SetItems [OF assms])

lemma progList_Update_no_selection:
  "list_SelectedItem L (pl_list pl) = None \<Longrightarrow> snd (snd (progList_Update L ev pl)) = None"
  by (auto simp: progList_Update_def Let_def split: msg.splits prod.splits)

lemma mapList_Update_no_selection:
  "list_SelectedItem L (ml_list ml) = None \<Longrightarrow> snd (snd (mapList_Update L ev ml)) = None"
  by (auto simp: mapList_Update_def Let_def split: msg.splits prod.splits)

lemma handleProgListKeys_no_selection:
  "snd (snd (progList_Update L (KeyMsg k) (progList m))) = None \<Longrightarrow>
   stays m (fst (handleProgListKeys L k m))"
  by (auto simp: handleProgListKeys_def stays_def split: prod.splits)

lemma handleMapListKeys_no_selection:
  "snd (snd (mapList_Update L (KeyMsg k) (mapList m))) = None \<Longrightarrow>
   stays m (fst (handleMapListKeys L k m))"
  by (auto simp: handleMapListKeys_def stays_def split: prod.splits)

lemma loadPrograms_empty:
  "progSvc m = None \<or> (progSvc m = Some svc \<and> prog_List svc = Inr []) \<Longrightarrow>
   progList (loadPrograms L m) = emptyProgList L (progList_ResetFilter L (progList m)) []"
  by (auto simp: loadPrograms_def emptyProgList_def)

lemma loadMaps_empty:
  "mapsSvc m = None \<or> (mapsSvc m = Some svc \<and> maps_List svc = Inr []) \<Longrightarrow>
   mapList (loadMaps L m) = emptyMapList L (mapList_ResetFilter L (mapList m)) []"
  by (auto simp: loadMaps_def emptyMapList_def)

text \<open>
  C9. Empty lists, given a list widget that keeps its items. Loading an empty collection
  (or loading without a service) leaves the list model that \<open>SetPrograms []\<close> builds. In
  that model, and after any key presses \<open>ks\<close> on it (up and down among them), the
  collection is still empty and the widget has no selected item; with no error set the
  view is the empty-state message; every key press, confirm included, reports no
  selection; and the root model makes no transition on it. The same holds for the maps
  list.
\<close>

theorem C9_empty_list:
  assumes "list_keeps_items L"
  shows "(progSvc mload = None \<or> (progSvc mload = Some ps \<and> prog_List ps = Inr []) \<longrightarrow>
            progList (loadPrograms L mload)
              = emptyProgList L (progList_ResetFilter L (progList mload)) [])
       \<and> pl_programs (emptyProgList L pinit ks) = []
       \<and> list_SelectedItem L (pl_list (emptyProgList L pinit ks)) = None
       \<and> (pl_err pinit = None \<longrightarrow>
            progList_View L (emptyProgList L pinit ks)
              = Render L titleStyle ''BPF Programs'' @ NL @ NL
                  @ Render L dimStyle ''No BPF programs loaded'')
       \<and> snd (snd (progList_Update L (KeyMsg k) (emptyProgList L pinit ks))) = None
       \<and> (progList m = emptyProgList L pinit ks \<longrightarrow> stays m (fst (handleProgListKeys L k m)))
       \<and> (mapsSvc mload = None \<or> (mapsSvc mload = Some ms \<and> maps_List ms = Inr []) \<longrightarrow>
            mapList (loadMaps L mload)
              = emptyMapList L (mapList_ResetFilter L (mapList mload)) [])
       \<and> ml_maps (emptyMapList L minit ks) = []
       \<and> list_SelectedItem L (ml_list (emptyMapList L minit ks)) = None
       \<and> (ml_err minit = None \<longrightarrow>
            mapList_View L (emptyMapList L minit ks)
              = Render L titleStyle ''BPF Maps'' @ NL @ NL
                  @ Render L dimStyle ''No BPF maps loaded'')
       \<and> snd (snd (mapList_Update L (KeyMsg k) (emptyMapList L minit ks))) = None
       \<and> (mapList m = emptyMapList L minit ks \<longrightarrow> stays m (fst (handleMapListKeys L k m)))"
proof -
  note p = emptyProgList_fields [OF assms, of pinit ks]
  note q = emptyMapList_fields [OF assms, of minit ks]
  have ps: "list_SelectedItem L (pl_list (emptyProgList L pinit ks)) = None"
    by (rule no_items_no_selection [OF assms p(3)])
  have qs: "list_SelectedItem L (ml_list (emptyMapList L minit ks)) = None"
    by (rule no_items_no_selection [OF assms q(3)])
  have pv: "pl_err pinit = None \<longrightarrow>
            progList_View L (emptyProgList L pinit ks)
              = Render L titleStyle ''BPF Programs'' @ NL @ NL
                  @ Render L dimStyle ''No BPF programs loaded''"
    by (simp add: progList_View_def p)
  have qv: "ml_err minit = None \<longrightarrow>
            mapList_View L (emptyMapList L minit ks)
              = Render L titleStyle ''BPF Maps'' @ NL @ NL
                  @ Render L dimStyle ''No BPF maps loaded''"
    by (simp add: mapList_View_def q)
  have pu: "snd (snd (progList_Update L (KeyMsg k) (emptyProgList L pinit ks))) = None"
    by (rule progList_Update_no_selection [OF ps])
  have qu: "snd (snd (mapList_Update L (KeyMsg k) (emptyMapList L minit ks))) = None"
    by (rule mapList_Update_no_selection [OF qs])
  have pr: "progList m = emptyProgList L pinit ks \<longrightarrow> stays m (fst (handleProgListKeys L k m))"
    using pu handleProgListKeys_no_selection [of L k m] by auto
  have qr: "mapList m = emptyMapList L minit ks \<longrightarrow> stays m (fst (handleMapListKeys L k m))"
    using qu handleMapListKeys_no_selection [of L k m] by auto
  from p(1) q(1) ps qs pv qv pu qu pr qr loadPrograms_empty [of mload ps L]
    loadMaps_empty [of mload ms L]
  show ?thesis by blast
qed

text \<open>Without services both lists are empty: the program list shows its empty-state
  message, and after a down and an up press the confirm press leaves the view and the
  history as they are.\<close>

theorem C9_empty_list_witness:
  "progList_View simpleLib (progList (pressKeys simpleLib [''enter'']
       (NewModel simpleLib None None)))
     = ''BPF Programs'' @ NL @ NL @ ''No BPF programs loaded''
   \<and> stays (pressKeys simpleLib [''enter''] (NewModel simpleLib None None))
       (fst (handleProgListKeys simpleLib ''enter''
          (pressKeys simpleLib [''enter''] (NewModel simpleLib None None))))
   \<and> state (pressKeys simpleLib [''enter'', ''down'', ''up'', ''enter'']
       (NewModel simpleLib None None)) = ViewProgList"
proof -
  define m where "m = pressKeys simpleLib [''enter''] (NewModel simpleLib None None)"
  define pl0 where
    "pl0 = progList_ResetFilter simpleLib (progList (NewModel simpleLib None None))"
  have h: "progList m = emptyProgList simpleLib pl0 []"
    unfolding m_def pl0_def by code_simp
  have e: "pl_err pl0 = None"
    unfolding pl0_def by code_simp
  from C9_empty_list [OF simpleLib_keeps_items, where pinit = pl0 and ks = "[]" and m = m
      and k = "''enter''"] h e
  have "progList_View simpleLib (progList m)
          = Render simpleLib titleStyle ''BPF Programs'' @ NL @ NL
              @ Render simpleLib dimStyle ''No BPF programs loaded''"
    and s: "stays m (fst (handleProgListKeys simpleLib ''enter'' m))"
    by simp_all
  then have v: "progList_View simpleLib (progList m)
          = ''BPF Programs'' @ NL @ NL @ ''No BPF programs loaded''"
    by (simp add: simpleLib_def)
  have "state (pressKeys simpleLib [''enter'', ''down'', ''up'', ''enter'']
       (NewModel simpleLib None None)) = ViewProgList"
    by code_simp
  with v s show ?thesis unfolding m_def by blast
qed

end
